theory Spec2Isabelle
  imports Main
begin

section \<open>The scripts\<close>

text \<open>
  The repository holds near-duplicate scraping scripts for one catalogue site.  Functions
  that exist under the same name in several scripts carry the script as a suffix here:
  \<open>_abd\<close> for all_books_data.py, \<open>_ibd\<close> for images_book_data.py, \<open>_bdi\<close> for
  books_data_images.py and \<open>_t2i\<close> for test2_image.py.  Each function that sends a
  request or touches the disk takes the state of the run and returns the new one; a
  function that can raise returns the exception as \<open>Inl\<close>.
\<close>

section \<open>Python strings\<close>

text \<open>
  A Python \<open>str\<close> is a sequence of Unicode code points, so it is modelled as a list of
  natural numbers (the code points), not as a list of bytes.  \<open>str\<close> turns an ASCII
  literal of the source into that representation.  U+00A3 is the pound sign and U+00AC
  the not sign.
\<close>

type_synonym codepoint = nat
type_synonym pystr = "codepoint list"

definition str :: "string \<Rightarrow> pystr" where
  "str s = map of_char s"

definition pound :: pystr where
  "pound = [163]"

definition not_sign_pound :: pystr where
  "not_sign_pound = [172, 163]"

text \<open>The truth value of a string or \<open>None\<close>, and \<open>a or b\<close> on strings.\<close>

definition truthy :: "pystr option \<Rightarrow> bool" where
  "truthy s = (case s of None \<Rightarrow> False | Some x \<Rightarrow> x \<noteq> [])"

definition por :: "pystr \<Rightarrow> pystr \<Rightarrow> pystr" where
  "por a b = (if a = [] then b else a)"

text \<open>\<open>str.isspace\<close> of one code point, the set that \<open>str.strip()\<close> removes.\<close>

definition isspace :: "codepoint \<Rightarrow> bool" where
  "isspace c \<longleftrightarrow>
     (9 \<le> c \<and> c \<le> 13) \<or> (28 \<le> c \<and> c \<le> 32) \<or> c = 133 \<or> c = 160 \<or> c = 5760 \<or>
     (8192 \<le> c \<and> c \<le> 8202) \<or> c = 8232 \<or> c = 8233 \<or> c = 8239 \<or> c = 8287 \<or> c = 12288"

definition strip :: "pystr \<Rightarrow> pystr" where
  "strip s = rev (dropWhile isspace (rev (dropWhile isspace s)))"

text \<open>\<open>s.strip(cs)\<close>: drop leading and trailing code points that occur in \<open>cs\<close>.\<close>

definition strip_chars :: "pystr \<Rightarrow> pystr \<Rightarrow> pystr" where
  "strip_chars cs s =
     rev (dropWhile (\<lambda>c. c \<in> set cs) (rev (dropWhile (\<lambda>c. c \<in> set cs) s)))"

text \<open>
  \<open>s.replace(old, new)\<close>: left to right, non-overlapping.  With an empty \<open>old\<close>
  Python puts \<open>new\<close> before every code point and at the end.
\<close>

function replace_from :: "pystr \<Rightarrow> pystr \<Rightarrow> pystr \<Rightarrow> pystr" where
  "replace_from old new [] = []"
| "replace_from old new (c # cs) =
     (if old \<noteq> [] \<and> take (length old) (c # cs) = old
      then new @ replace_from old new (drop (length old) (c # cs))
      else c # replace_from old new cs)"
  by pat_completeness auto
termination
  by (relation "measure (\<lambda>(old, new, s). length s)") auto

definition replace :: "pystr \<Rightarrow> pystr \<Rightarrow> pystr \<Rightarrow> pystr" where
  "replace s old new =
     (if old = [] then new @ concat (map (\<lambda>c. c # new) s) else replace_from old new s)"

text \<open>\<open>s.split(sep)\<close> for a separator of one code point.\<close>

fun split :: "pystr \<Rightarrow> codepoint \<Rightarrow> pystr list" where
  "split [] sep = [ [] ]"
| "split (c # cs) sep =
     (if c = sep then [] # split cs sep
      else (case split cs sep of [] \<Rightarrow> [ [c] ] | p # ps \<Rightarrow> (c # p) # ps))"

section \<open>The filename sanitizer\<close>

text \<open>
  \<^verbatim>\<open>re.sub(r"[^A-Za-z0-9_-]+", "_", (s or "")).strip("_") or "file"\<close>
  (\<open>cleaner\<close> in books_data_images.py and test2_image.py, \<open>sanitize\<close> in
  images_book_data.py, the same body).  \<open>keep\<close> is the character class
  \<open>[A-Za-z0-9_-]\<close>; \<open>re_sub_unsafe\<close> replaces every maximal run of code points outside
  the class by one underscore (code point 95).
\<close>

definition keep :: "codepoint \<Rightarrow> bool" where
  "keep c \<longleftrightarrow>
     (65 \<le> c \<and> c \<le> 90) \<or> (97 \<le> c \<and> c \<le> 122) \<or> (48 \<le> c \<and> c \<le> 57) \<or> c = 95 \<or> c = 45"

function re_sub_unsafe :: "pystr \<Rightarrow> pystr" where
  "re_sub_unsafe [] = []"
| "re_sub_unsafe (c # cs) =
     (if keep c then c # re_sub_unsafe cs
      else 95 # re_sub_unsafe (dropWhile (\<lambda>x. \<not> keep x) cs))"
  by pat_completeness auto
termination
  by (relation "measure length") (auto simp: length_dropWhile_le less_Suc_eq_le)

definition cleaner :: "pystr option \<Rightarrow> pystr" where
  "cleaner s =
     (let t = strip_chars (str ''_'') (re_sub_unsafe (case s of None \<Rightarrow> [] | Some x \<Rightarrow> x))
      in if t = [] then str ''file'' else t)"

definition sanitize :: "pystr option \<Rightarrow> pystr" where
  "sanitize s = cleaner s"

section \<open>Dictionaries, errors, library functions\<close>

text \<open>
  A Python \<open>dict\<close> keeps insertion order, which the exporter relies on, so it is an
  association list with distinct keys: \<open>dict_set\<close> is \<open>d[k] = v\<close> and \<open>dict_get\<close>
  is \<open>d.get(k, default)\<close>.  A scraped product is a \<open>dict\<close> from the literal keys
  of the source to strings.
\<close>

fun dict_set :: "('k \<times> 'v) list \<Rightarrow> 'k \<Rightarrow> 'v \<Rightarrow> ('k \<times> 'v) list" where
  "dict_set [] k v = [(k, v)]"
| "dict_set ((k', v') # d) k v =
     (if k' = k then (k, v) # d else (k', v') # dict_set d k v)"

definition dict_get :: "('k \<times> 'v) list \<Rightarrow> 'k \<Rightarrow> 'v \<Rightarrow> 'v" where
  "dict_get d k dflt = (case map_of d k of None \<Rightarrow> dflt | Some v \<Rightarrow> v)"

type_synonym pydict = "(string \<times> pystr) list"

text \<open>
  The exceptions the scripts can meet.  \<open>ConnectionError\<close> is a request that gets no
  response (DNS, connect, timeout), \<open>HTTPError\<close> is what \<open>raise_for_status\<close>
  raises, \<open>StreamError\<close> is a body stream that breaks while it is read.
\<close>

datatype error =
  ConnectionError | HTTPError nat | StreamError | AttributeError | KeyError | IndexError
  | ValueError

definition item :: "'a list \<Rightarrow> nat \<Rightarrow> error + 'a" where
  "item xs i = (if i < length xs then Inr (xs ! i) else Inl IndexError)"

text \<open>
  Library functions that consult tables outside the repository are parameters of the
  model: \<open>urllib.parse.urljoin\<close>, \<open>str.lower\<close> (the Unicode case table) and the
  class \<open>\d\<close> of the \<open>re\<close> module (the Unicode decimal digits).
\<close>

record pylib =
  urljoin :: "pystr \<Rightarrow> pystr \<Rightarrow> pystr"
  lower :: "pystr \<Rightarrow> pystr"
  decimal :: "codepoint \<Rightarrow> bool"

section \<open>Parsed pages, the web and the file system\<close>

text \<open>
  A page is modelled by the answers of the parse tree to the queries the scripts make:
  \<^item> \<open>h1\<close>: the text of the product heading, if there is one;
  \<^item> \<open>spec_table\<close>: the rows of the table of class \<open>table table-striped\<close>, each row
    the list of its \<open>th\<close>/\<open>td\<close> cells in document order, every cell with its text;
  \<^item> \<open>product_description\<close>: \<open>None\<close> without the element of id
    \<open>product_description\<close>, \<open>Some None\<close> when no paragraph follows it, otherwise the
    text of that paragraph;
  \<^item> \<open>breadcrumb\<close>: the \<open>li\<close> entries of \<open>ul.breadcrumb\<close>, an entry being a link
    with its text or plain text;
  \<^item> \<open>gallery_img\<close>: the image of \<open>#product_gallery\<close> and its \<open>src\<close> attribute;
  \<^item> \<open>product_pods\<close>: for each \<open>article.product_pod\<close>, its \<open>h3\<close> (or \<open>None\<close>),
    the anchor in it (or \<open>None\<close>) and the anchor's \<open>href\<close> (or \<open>None\<close>);
  \<^item> \<open>pager_next\<close>: the \<open>li.next\<close> of the pager, its anchor and the anchor's
    \<open>href\<close>, in the same way.
  Every cell, heading and entry holds one text node, so that \<open>.text.strip()\<close> and
  \<open>get_text(strip=True)\<close> agree on it.
\<close>

datatype tag = TH | TD

type_synonym cell = "tag \<times> pystr"

type_synonym tr = "cell list"

datatype crumb = Link pystr | Plain pystr

fun crumb_text :: "crumb \<Rightarrow> pystr" where
  "crumb_text (Link t) = t"
| "crumb_text (Plain t) = t"

fun anchor_texts :: "crumb list \<Rightarrow> pystr list" where
  "anchor_texts [] = []"
| "anchor_texts (Link t # cs) = t # anchor_texts cs"
| "anchor_texts (Plain t # cs) = anchor_texts cs"

record soup =
  h1 :: "pystr option"
  spec_table :: "tr list option"
  product_description :: "pystr option option"
  breadcrumb :: "crumb list"
  gallery_img :: "pystr option option"
  product_pods :: "pystr option option option list"
  pager_next :: "pystr option option option"

text \<open>
  A response has a status, an optional \<open>Content-Type\<close> header, the parse tree of its
  body and the body as the chunks that \<open>iter_content\<close> delivers; \<open>stream_breaks\<close>
  says that the connection fails after the last of these chunks.  The web answers a
  request, a URL with its optional \<open>Referer\<close> header, by a response or by none, and the
  answer may depend on the requests sent before it: a second request of a URL need not
  be answered as the first was.  The state of a run is the list of the requests sent so
  far and the files on disk.
  Directories, \<open>print\<close> and \<open>time.sleep\<close> are not part of the state, and the file
  system itself never fails.
\<close>

type_synonym bytes = string

record response =
  status_code :: nat
  content_type :: "pystr option"
  parsed :: soup
  chunks :: "bytes list"
  stream_breaks :: bool

datatype outcome = NoResponse | Response response

type_synonym request = "pystr \<times> pystr option"

type_synonym web = "request list \<Rightarrow> request \<Rightarrow> outcome"

record system =
  sent :: "request list"
  files :: "pystr \<rightharpoonup> bytes"

definition http_get :: "web \<Rightarrow> pystr \<Rightarrow> pystr option \<Rightarrow> system \<Rightarrow> (error + response) \<times> system" where
  "http_get w url referer \<sigma> =
     (case w (sent \<sigma>) (url, referer) of NoResponse \<Rightarrow> Inl ConnectionError | Response r \<Rightarrow> Inr r,
      \<sigma>\<lparr>sent := sent \<sigma> @ [(url, referer)]\<rparr>)"

definition raise_for_status :: "response \<Rightarrow> error + unit" where
  "raise_for_status r =
     (if 400 \<le> status_code r \<and> status_code r < 600 then Inl (HTTPError (status_code r))
      else Inr ())"

text \<open>
  \<open>get_soup\<close> of books_data_images.py and test2_image.py; images_book_data.py writes
  the same three lines at the head of each of its fetching functions.
\<close>

definition get_soup :: "web \<Rightarrow> pystr \<Rightarrow> system \<Rightarrow> (error + soup) \<times> system" where
  "get_soup w url \<sigma> =
     (case http_get w url None \<sigma> of
        (Inl e, \<sigma>') \<Rightarrow> (Inl e, \<sigma>')
      | (Inr r, \<sigma>') \<Rightarrow>
          (case raise_for_status r of Inl e \<Rightarrow> (Inl e, \<sigma>') | Inr _ \<Rightarrow> (Inr (parsed r), \<sigma>')))"

text \<open>
  all_books_data.py calls \<open>requests.get\<close> and parses the body whatever the status.
\<close>

definition get_soup_unchecked :: "web \<Rightarrow> pystr \<Rightarrow> system \<Rightarrow> (error + soup) \<times> system" where
  "get_soup_unchecked w url \<sigma> =
     (case http_get w url None \<sigma> of
        (Inl e, \<sigma>') \<Rightarrow> (Inl e, \<sigma>')
      | (Inr r, \<sigma>') \<Rightarrow> (Inr (parsed r), \<sigma>'))"

section \<open>The Extractor of all_books_data.py\<close>

text \<open>
  The four variables that the loop over the rows of the attributes table assigns; all
  start as the empty string.
\<close>

record table_fields =
  t_upc :: pystr
  t_price_incl_tax :: pystr
  t_price_excl_tax :: pystr
  t_availability :: pystr

definition empty_fields :: table_fields where
  "empty_fields = \<lparr>t_upc = [], t_price_incl_tax = [], t_price_excl_tax = [], t_availability = []\<rparr>"

text \<open>A \<open>for\<close> loop whose body may raise: the first exception ends it.\<close>

fun for_each :: "('a \<Rightarrow> 's \<Rightarrow> error + 's) \<Rightarrow> 'a list \<Rightarrow> 's \<Rightarrow> error + 's" where
  "for_each f [] s = Inr s"
| "for_each f (x # xs) s = (case f x s of Inl e \<Rightarrow> Inl e | Inr s' \<Rightarrow> for_each f xs s')"

text \<open>\<^verbatim>\<open>value.split('(')[1].split(' ')[0]\<close>; 40 is the left parenthesis, 32 the space.\<close>

definition count_in_parens :: "pystr \<Rightarrow> error + pystr" where
  "count_in_parens val =
     (case item (split val 40) 1 of Inl e \<Rightarrow> Inl e | Inr p \<Rightarrow> item (split p 32) 0)"

definition table_row_abd :: "tr \<Rightarrow> table_fields \<Rightarrow> error + table_fields" where
  "table_row_abd cells v =
     (if 2 \<le> length cells then
        (let key = strip (snd (cells ! 0)); val = strip (snd (cells ! 1)) in
         if key = str ''UPC'' then Inr (v\<lparr>t_upc := val\<rparr>)
         else if key = str ''Price (incl. tax)'' then
           Inr (v\<lparr>t_price_incl_tax := replace val pound []\<rparr>)
         else if key = str ''Price (excl. tax)'' then
           Inr (v\<lparr>t_price_excl_tax := replace val pound []\<rparr>)
         else if key = str ''Availability'' then
           (if 40 \<in> set val then
              (case count_in_parens val of
                 Inl e \<Rightarrow> Inl e
               | Inr a \<Rightarrow> Inr (v\<lparr>t_availability := a\<rparr>))
            else Inr (v\<lparr>t_availability := str ''0''\<rparr>))
         else Inr v)
      else Inr v)"

text \<open>
  The category of all_books_data.py and images_book_data.py: the text of the last
  anchor of the breadcrumb when there are at least three anchors.
\<close>

definition category_of_links :: "soup \<Rightarrow> pystr" where
  "category_of_links page =
     (let bc_links = anchor_texts (breadcrumb page)
      in if 3 \<le> length bc_links then strip (last bc_links) else str ''Unknown'')"

text \<open>\<open>scrape_book\<close> of all_books_data.py: first what it does with the parse tree.\<close>

definition book_of_soup_abd :: "pystr \<Rightarrow> soup \<Rightarrow> error + pydict" where
  "book_of_soup_abd url page =
     (let title = (case h1 page of None \<Rightarrow> str ''N/A'' | Some t \<Rightarrow> t) in
      case (case spec_table page of
              None \<Rightarrow> Inr empty_fields
            | Some rows \<Rightarrow> for_each table_row_abd rows empty_fields) of
        Inl e \<Rightarrow> Inl e
      | Inr v \<Rightarrow>
          (let description =
                 (case product_description page of
                    Some (Some t) \<Rightarrow> t
                  | _ \<Rightarrow> str ''Pas de description'');
               category = category_of_links page
           in Inr [(''title'', title), (''upc'', t_upc v),
                   (''price_with_tax'', t_price_incl_tax v),
                   (''price_without_tax'', t_price_excl_tax v),
                   (''availability'', t_availability v),
                   (''description'', description), (''category'', category),
                   (''product_url'', url)]))"

definition scrape_book_abd :: "web \<Rightarrow> pystr \<Rightarrow> system \<Rightarrow> (error + pydict) \<times> system" where
  "scrape_book_abd w url \<sigma> =
     (case get_soup_unchecked w url \<sigma> of
        (Inl e, \<sigma>') \<Rightarrow> (Inl e, \<sigma>')
      | (Inr page, \<sigma>') \<Rightarrow> (book_of_soup_abd url page, \<sigma>'))"

section \<open>Paths and files\<close>

definition IMAGES_DIR :: pystr where
  "IMAGES_DIR = str ''books_images''"

definition OUTPUT_DIR :: pystr where
  "OUTPUT_DIR = str ''books_csv''"

text \<open>\<open>os.path.join\<close>, \<open>basename\<close> and the extension of \<open>splitext\<close> on POSIX; 47 is
  the slash and 46 the dot.\<close>

definition path_join :: "pystr \<Rightarrow> pystr \<Rightarrow> pystr" where
  "path_join a b =
     (if b \<noteq> [] \<and> hd b = 47 then b
      else if a = [] \<or> last a = 47 then a @ b
      else a @ [47] @ b)"

definition basename :: "pystr \<Rightarrow> pystr" where
  "basename p = rev (takeWhile (\<lambda>c. c \<noteq> 47) (rev p))"

definition splitext_ext :: "pystr \<Rightarrow> pystr" where
  "splitext_ext p =
     (let name = basename p in
      if 46 \<in> set name then
        (let stem = rev (tl (dropWhile (\<lambda>c. c \<noteq> 46) (rev name)));
             ext = 46 # rev (takeWhile (\<lambda>c. c \<noteq> 46) (rev name))
         in if list_ex (\<lambda>c. c \<noteq> 46) stem then ext else [])
      else [])"

text \<open>
  \<^verbatim>\<open>with open(path, "wb") as f: for chunk in r.iter_content(...): if chunk: f.write(chunk)\<close>.
  The file holds the chunks that arrived, also when the stream breaks after them.
\<close>

definition write_stream :: "pystr \<Rightarrow> response \<Rightarrow> system \<Rightarrow> (error + unit) \<times> system" where
  "write_stream path r \<sigma> =
     (if stream_breaks r then Inl StreamError else Inr (),
      \<sigma>\<lparr>files := (files \<sigma>)(path \<mapsto> concat (chunks r))\<rparr>)"

definition os_replace :: "pystr \<Rightarrow> pystr \<Rightarrow> system \<Rightarrow> system" where
  "os_replace src dst \<sigma> = \<sigma>\<lparr>files := (files \<sigma>)(dst := files \<sigma> src, src := None)\<rparr>"

section \<open>The Asset Fetcher and the Extractor of images_book_data.py\<close>

text \<open>
  \<open>save_image\<close> of images_book_data.py.  Only \<open>raise_for_status\<close> raises
  \<open>requests.HTTPError\<close>, so the \<open>except\<close> clause retries exactly after a failure
  status; every other exception, and any exception of the retry, leaves the function.
  63 is the question mark.
\<close>

definition save_image_ibd ::
  "pylib \<Rightarrow> web \<Rightarrow> pystr \<Rightarrow> pystr \<Rightarrow> pystr \<Rightarrow> pystr \<Rightarrow> pystr option \<Rightarrow> system
   \<Rightarrow> (error + pystr) \<times> system" where
  "save_image_ibd L w image_url category upc title referer_url \<sigma> =
     (if image_url = [] then (Inr [], \<sigma>)
      else
        (let folder = path_join IMAGES_DIR (sanitize (Some (por category (str ''Unknown''))));
             url_path = takeWhile (\<lambda>c. c \<noteq> 63) image_url;
             ext0 = lower L (splitext_ext (basename url_path));
             ext = (if ext0 \<in> set [str ''.jpg'', str ''.jpeg'', str ''.png'', str ''.gif'',
                                    str ''.webp'']
                    then ext0 else str ''.jpg'');
             base_name = sanitize (Some (por (por upc title) (str ''image'')));
             dest_path = path_join folder (base_name @ ext)
         in if files \<sigma> dest_path \<noteq> None then (Inr dest_path, \<sigma>)
            else
              (case http_get w image_url None \<sigma> of
                 (Inl e, \<sigma>1) \<Rightarrow> (Inl e, \<sigma>1)
               | (Inr r, \<sigma>1) \<Rightarrow>
                   (case raise_for_status r of
                      Inr _ \<Rightarrow>
                        (case write_stream dest_path r \<sigma>1 of
                           (Inl e, \<sigma>2) \<Rightarrow> (Inl e, \<sigma>2)
                         | (Inr _, \<sigma>2) \<Rightarrow> (Inr dest_path, \<sigma>2))
                    | Inl _ \<Rightarrow>
                        (case http_get w image_url
                                (if truthy referer_url then referer_url else None) \<sigma>1 of
                           (Inl e, \<sigma>2) \<Rightarrow> (Inl e, \<sigma>2)
                         | (Inr r2, \<sigma>2) \<Rightarrow>
                             (case raise_for_status r2 of
                                Inl e \<Rightarrow> (Inl e, \<sigma>2)
                              | Inr _ \<Rightarrow>
                                  (case write_stream dest_path r2 \<sigma>2 of
                                     (Inl e, \<sigma>3) \<Rightarrow> (Inl e, \<sigma>3)
                                   | (Inr _, \<sigma>3) \<Rightarrow> (Inr dest_path, \<sigma>3))))))))"

text \<open>\<open>row.find("th")\<close> and \<open>row.find("td")\<close>: the first cell of that tag.\<close>

fun find_cell :: "tag \<Rightarrow> tr \<Rightarrow> pystr option" where
  "find_cell t [] = None"
| "find_cell t ((t', x) # cs) = (if t' = t then Some x else find_cell t cs)"

text \<open>\<^verbatim>\<open>m = re.search(r"(\d+)", val)\<close> and \<open>m.group(1)\<close>: the first maximal run of
  decimal digits.\<close>

definition search_decimal :: "pylib \<Rightarrow> pystr \<Rightarrow> pystr option" where
  "search_decimal L val =
     (let rest = dropWhile (\<lambda>c. \<not> decimal L c) val
      in if rest = [] then None else Some (takeWhile (decimal L) rest))"

definition table_row_ibd :: "pylib \<Rightarrow> tr \<Rightarrow> table_fields \<Rightarrow> table_fields" where
  "table_row_ibd L row v =
     (case (find_cell TH row, find_cell TD row) of
        (Some th, Some td) \<Rightarrow>
          (let key = strip th; val = strip td in
           if key = str ''UPC'' then v\<lparr>t_upc := val\<rparr>
           else if key = str ''Price (incl. tax)'' then
             v\<lparr>t_price_incl_tax := replace val not_sign_pound []\<rparr>
           else if key = str ''Price (excl. tax)'' then
             v\<lparr>t_price_excl_tax := replace val not_sign_pound []\<rparr>
           else if key = str ''Availability'' then
             v\<lparr>t_availability :=
                 (case search_decimal L val of Some m \<Rightarrow> m | None \<Rightarrow> str ''0'')\<rparr>
           else v)
      | _ \<Rightarrow> v)"

text \<open>The ten-key dictionary that the image-capable scripts return for a product.\<close>

definition book_dict ::
  "pystr \<Rightarrow> table_fields \<Rightarrow> pystr \<Rightarrow> pystr \<Rightarrow> pystr \<Rightarrow> pystr \<Rightarrow> pystr \<Rightarrow> pydict" where
  "book_dict title v description category url image_url image_path =
     [(''title'', title), (''upc'', t_upc v),
      (''price_incl_tax_gbp'', t_price_incl_tax v),
      (''price_excl_tax_gbp'', t_price_excl_tax v),
      (''availability'', t_availability v),
      (''description'', description), (''category'', category),
      (''product_page_url'', url), (''image_url'', image_url), (''image_path'', image_path)]"

definition scrape_book_ibd :: "pylib \<Rightarrow> web \<Rightarrow> pystr \<Rightarrow> system \<Rightarrow> (error + pydict) \<times> system" where
  "scrape_book_ibd L w url \<sigma> =
     (case get_soup w url \<sigma> of
        (Inl e, \<sigma>1) \<Rightarrow> (Inl e, \<sigma>1)
      | (Inr page, \<sigma>1) \<Rightarrow>
          (let title = (case h1 page of None \<Rightarrow> str ''N/A'' | Some t \<Rightarrow> strip t);
               v = (case spec_table page of
                      None \<Rightarrow> empty_fields
                    | Some rows \<Rightarrow> fold (table_row_ibd L) rows empty_fields);
               description =
                 (case product_description page of Some (Some t) \<Rightarrow> strip t | _ \<Rightarrow> []);
               category = category_of_links page
           in case gallery_img page of
                Some (Some src) \<Rightarrow>
                  (if src \<noteq> [] then
                     (let image_url = urljoin L url src in
                      case save_image_ibd L w image_url category (t_upc v) title (Some url) \<sigma>1 of
                        (Inl e, \<sigma>2) \<Rightarrow>
                          (Inr (book_dict title v description category url image_url []), \<sigma>2)
                      | (Inr image_path, \<sigma>2) \<Rightarrow>
                          (Inr (book_dict title v description category url image_url image_path),
                           \<sigma>2))
                   else (Inr (book_dict title v description category url [] []), \<sigma>1))
              | _ \<Rightarrow> (Inr (book_dict title v description category url [] []), \<sigma>1)))"

section \<open>The Extractor and the Asset Fetcher of books_data_images.py\<close>

definition specs_row :: "tr \<Rightarrow> (pystr \<times> pystr) list \<Rightarrow> (pystr \<times> pystr) list" where
  "specs_row row specs =
     (case (find_cell TH row, find_cell TD row) of
        (Some th, Some td) \<Rightarrow> dict_set specs (strip th) (strip td)
      | _ \<Rightarrow> specs)"

text \<open>
  \<open>extract_book_data\<close>: what it does with the parse tree.  Without a heading,
  \<open>(None or {}).get_text\<close> is an attribute lookup on a \<open>dict\<close>, which raises.
\<close>

definition book_of_soup_bdi :: "pylib \<Rightarrow> pystr \<Rightarrow> soup \<Rightarrow> error + pydict" where
  "book_of_soup_bdi L product_url page =
     (case h1 page of
        None \<Rightarrow> Inl AttributeError
      | Some t \<Rightarrow>
          (let title = strip t;
               crumbs = map (\<lambda>li. strip (crumb_text li)) (breadcrumb page);
               category = (if 4 \<le> length crumbs then crumbs ! 2 else str ''Default'');
               specs = fold specs_row (case spec_table page of None \<Rightarrow> [] | Some rows \<Rightarrow> rows) [];
               upc = dict_get specs (str ''UPC'') [];
               price_incl = strip (replace (dict_get specs (str ''Price (incl. tax)'') []) pound []);
               price_excl = strip (replace (dict_get specs (str ''Price (excl. tax)'') []) pound []);
               availability = dict_get specs (str ''Availability'') [];
               description =
                 (case product_description page of Some (Some d) \<Rightarrow> strip d | _ \<Rightarrow> []);
               img_src = (case gallery_img page of Some (Some src) \<Rightarrow> strip src | _ \<Rightarrow> []);
               image_url = (if img_src \<noteq> [] then urljoin L product_url img_src else [])
           in Inr [(''title'', title), (''upc'', upc),
                   (''price_incl_tax_gbp'', price_incl),
                   (''price_excl_tax_gbp'', price_excl),
                   (''availability'', availability),
                   (''description'', description), (''category'', category),
                   (''product_page_url'', product_url), (''image_url'', image_url)]))"

definition extract_book_data :: "pylib \<Rightarrow> web \<Rightarrow> pystr \<Rightarrow> system \<Rightarrow> (error + pydict) \<times> system" where
  "extract_book_data L w product_url \<sigma> =
     (case get_soup w product_url \<sigma> of
        (Inl e, \<sigma>') \<Rightarrow> (Inl e, \<sigma>')
      | (Inr page, \<sigma>') \<Rightarrow> (book_of_soup_bdi L product_url page, \<sigma>'))"

text \<open>
  \<open>download_image\<close>: the whole download is inside \<open>try ... except Exception: return ""\<close>,
  so the function always returns a string.
\<close>

definition download_image ::
  "web \<Rightarrow> pystr \<Rightarrow> pystr \<Rightarrow> pystr \<Rightarrow> pystr \<Rightarrow> pystr \<Rightarrow> system \<Rightarrow> pystr \<times> system" where
  "download_image w image_url category upc title referer_url \<sigma> =
     (if image_url = [] then ([], \<sigma>)
      else
        (let folder = path_join IMAGES_DIR (cleaner (Some category));
             name = cleaner (Some (por (por upc title) (str ''image''))) @ str ''.jpg'';
             dest = path_join folder name
         in if (case files \<sigma> dest of None \<Rightarrow> False | Some b \<Rightarrow> 0 < length b)
            then (dest, \<sigma>)
            else
              (case http_get w image_url (Some referer_url) \<sigma> of
                 (Inl e, \<sigma>1) \<Rightarrow> ([], \<sigma>1)
               | (Inr r, \<sigma>1) \<Rightarrow>
                   (case raise_for_status r of
                      Inl e \<Rightarrow> ([], \<sigma>1)
                    | Inr _ \<Rightarrow>
                        (let tmp = dest @ str ''.part'' in
                         case write_stream tmp r \<sigma>1 of
                           (Inl e, \<sigma>2) \<Rightarrow> ([], \<sigma>2)
                         | (Inr _, \<sigma>2) \<Rightarrow> (dest, os_replace tmp dest \<sigma>2))))))"

section \<open>The Lister and the Crawler of all_books_data.py\<close>

text \<open>
  The result of a crawl, \<open>by_category\<close>, is a \<open>dict\<close> from category names to lists of
  products; \<open>setdefault_append\<close> is \<^verbatim>\<open>by_category.setdefault(cat, []).append(data)\<close>.
\<close>

type_synonym groups = "(pystr \<times> pydict list) list"

fun setdefault_append :: "groups \<Rightarrow> pystr \<Rightarrow> pydict \<Rightarrow> groups" where
  "setdefault_append [] cat d = [(cat, [d])]"
| "setdefault_append ((k, rows) # g) cat d =
     (if k = cat then (k, rows @ [d]) # g else (k, rows) # setdefault_append g cat d)"

text \<open>
  One round of the loop of \<open>get_book_urls_from_page\<close>: \<open>book.find('h3').find('a')\<close>
  raises when the article has no \<open>h3\<close>.
\<close>

definition book_link_abd ::
  "pylib \<Rightarrow> pystr \<Rightarrow> pystr option option option \<Rightarrow> pystr list \<Rightarrow> error + pystr list" where
  "book_link_abd L list_url book book_urls =
     (case book of
        None \<Rightarrow> Inl AttributeError
      | Some link_element \<Rightarrow>
          (case link_element of
             Some (Some href) \<Rightarrow>
               (if href \<noteq> [] then Inr (book_urls @ [urljoin L list_url href]) else Inr book_urls)
           | _ \<Rightarrow> Inr book_urls))"

definition get_book_urls_from_page_abd ::
  "pylib \<Rightarrow> web \<Rightarrow> pystr \<Rightarrow> system \<Rightarrow> (error + pystr list) \<times> system" where
  "get_book_urls_from_page_abd L w list_url \<sigma> =
     (case get_soup_unchecked w list_url \<sigma> of
        (Inl e, \<sigma>') \<Rightarrow> (Inl e, \<sigma>')
      | (Inr page, \<sigma>') \<Rightarrow> (for_each (book_link_abd L list_url) (product_pods page) [], \<sigma>'))"

text \<open>\<open>next_link.find('a')['href']\<close> raises \<open>KeyError\<close> on an anchor without \<open>href\<close>.\<close>

definition get_next_page_url_abd ::
  "pylib \<Rightarrow> web \<Rightarrow> pystr \<Rightarrow> system \<Rightarrow> (error + pystr option) \<times> system" where
  "get_next_page_url_abd L w current_url \<sigma> =
     (case get_soup_unchecked w current_url \<sigma> of
        (Inl e, \<sigma>') \<Rightarrow> (Inl e, \<sigma>')
      | (Inr page, \<sigma>') \<Rightarrow>
          (case pager_next page of
             Some (Some a) \<Rightarrow>
               (case a of
                  None \<Rightarrow> Inl KeyError
                | Some next_url \<Rightarrow> Inr (Some (urljoin L current_url next_url)))
           | _ \<Rightarrow> Inr None,
           \<sigma>'))"

text \<open>
  The body of the \<open>for\<close> loop over the products of a page: \<open>try\<close> the extraction and
  the grouping, \<open>except Exception\<close> print and go on.
\<close>

definition visit_book_abd :: "web \<Rightarrow> pystr \<Rightarrow> groups \<times> system \<Rightarrow> groups \<times> system" where
  "visit_book_abd w book_url st =
     (case scrape_book_abd w book_url (snd st) of
        (Inr data, \<sigma>') \<Rightarrow>
          (setdefault_append (fst st)
             (por (dict_get data ''category'' (str ''Unknown'')) (str ''Unknown'')) data,
           \<sigma>')
      | (Inl e, \<sigma>') \<Rightarrow> (fst st, \<sigma>'))"

text \<open>
  The \<open>while current_url:\<close> loop of \<open>scrape_all_books\<close>.  It need not end (the pager of
  a site may go round in a circle), so it is a partial function: \<open>None\<close> is a crawl that
  never returns, \<open>Some (Inl e, \<sigma>)\<close> one that an exception leaves.
\<close>

partial_function (option) scrape_all_books_loop_abd ::
  "pylib \<Rightarrow> web \<Rightarrow> int option \<Rightarrow> pystr option \<Rightarrow> int \<Rightarrow> groups \<Rightarrow> system
   \<Rightarrow> ((error + groups) \<times> system) option" where
  "scrape_all_books_loop_abd L w max_pages current_url page_number by_category \<sigma> =
     (case current_url of
        None \<Rightarrow> Some (Inr by_category, \<sigma>)
      | Some url \<Rightarrow>
          if url = [] then Some (Inr by_category, \<sigma>)
          else if (case max_pages of None \<Rightarrow> False | Some m \<Rightarrow> m < page_number)
          then Some (Inr by_category, \<sigma>)
          else
            (case get_book_urls_from_page_abd L w url \<sigma> of
               (Inl e, \<sigma>1) \<Rightarrow> Some (Inl e, \<sigma>1)
             | (Inr book_urls, \<sigma>1) \<Rightarrow>
                 (case fold (visit_book_abd w) book_urls (by_category, \<sigma>1) of
                    (by_category', \<sigma>2) \<Rightarrow>
                      (case get_next_page_url_abd L w url \<sigma>2 of
                         (Inl e, \<sigma>3) \<Rightarrow> Some (Inl e, \<sigma>3)
                       | (Inr next_url, \<sigma>3) \<Rightarrow>
                           scrape_all_books_loop_abd L w max_pages next_url (page_number + 1)
                             by_category' \<sigma>3))))"

definition scrape_all_books_abd ::
  "pylib \<Rightarrow> web \<Rightarrow> pystr \<Rightarrow> int option \<Rightarrow> system \<Rightarrow> ((error + groups) \<times> system) option" where
  "scrape_all_books_abd L w start_url max_pages \<sigma> =
     scrape_all_books_loop_abd L w max_pages (Some start_url) 1 [] \<sigma>"

section \<open>The Lister and the Crawler of images_book_data.py\<close>

definition book_link_ibd ::
  "pylib \<Rightarrow> pystr \<Rightarrow> pystr option option option \<Rightarrow> pystr list \<Rightarrow> pystr list" where
  "book_link_ibd L list_url pod urls =
     (case pod of
        Some (Some (Some href)) \<Rightarrow>
          (if href \<noteq> [] then urls @ [urljoin L list_url href] else urls)
      | _ \<Rightarrow> urls)"

definition get_book_urls_from_page_ibd ::
  "pylib \<Rightarrow> web \<Rightarrow> pystr \<Rightarrow> system \<Rightarrow> (error + pystr list) \<times> system" where
  "get_book_urls_from_page_ibd L w list_url \<sigma> =
     (case get_soup w list_url \<sigma> of
        (Inl e, \<sigma>') \<Rightarrow> (Inl e, \<sigma>')
      | (Inr page, \<sigma>') \<Rightarrow> (Inr (fold (book_link_ibd L list_url) (product_pods page) []), \<sigma>'))"

definition get_next_page_url_ibd ::
  "pylib \<Rightarrow> web \<Rightarrow> pystr \<Rightarrow> system \<Rightarrow> (error + pystr option) \<times> system" where
  "get_next_page_url_ibd L w current_url \<sigma> =
     (case get_soup w current_url \<sigma> of
        (Inl e, \<sigma>') \<Rightarrow> (Inl e, \<sigma>')
      | (Inr page, \<sigma>') \<Rightarrow>
          (case pager_next page of
             Some (Some (Some href)) \<Rightarrow>
               (if href \<noteq> [] then Inr (Some (urljoin L current_url href)) else Inr None)
           | _ \<Rightarrow> Inr None,
           \<sigma>'))"

definition visit_book_ibd :: "pylib \<Rightarrow> web \<Rightarrow> pystr \<Rightarrow> groups \<times> system \<Rightarrow> groups \<times> system" where
  "visit_book_ibd L w book_url st =
     (case scrape_book_ibd L w book_url (snd st) of
        (Inr data, \<sigma>') \<Rightarrow>
          (setdefault_append (fst st) (por (dict_get data ''category'' []) (str ''Unknown'')) data,
           \<sigma>')
      | (Inl e, \<sigma>') \<Rightarrow> (fst st, \<sigma>'))"

text \<open>
  \<open>scrape_all_books\<close> of images_book_data.py catches the exceptions of both listing
  calls, so its loop returns the groups or does not return.
\<close>

partial_function (option) scrape_all_books_loop_ibd ::
  "pylib \<Rightarrow> web \<Rightarrow> int option \<Rightarrow> pystr option \<Rightarrow> int \<Rightarrow> groups \<Rightarrow> system
   \<Rightarrow> (groups \<times> system) option" where
  "scrape_all_books_loop_ibd L w max_pages current_url page_number by_category \<sigma> =
     (case current_url of
        None \<Rightarrow> Some (by_category, \<sigma>)
      | Some url \<Rightarrow>
          if url = [] then Some (by_category, \<sigma>)
          else
            (case (case get_book_urls_from_page_ibd L w url \<sigma> of
                     (Inl e, \<sigma>1) \<Rightarrow> ([], \<sigma>1)
                   | (Inr book_urls, \<sigma>1) \<Rightarrow> (book_urls, \<sigma>1)) of
               (book_urls, \<sigma>1) \<Rightarrow>
                 (case fold (visit_book_ibd L w) book_urls (by_category, \<sigma>1) of
                    (by_category', \<sigma>2) \<Rightarrow>
                      if (case max_pages of None \<Rightarrow> False | Some m \<Rightarrow> m \<le> page_number)
                      then Some (by_category', \<sigma>2)
                      else
                        (case (case get_next_page_url_ibd L w url \<sigma>2 of
                                 (Inl e, \<sigma>3) \<Rightarrow> (None, \<sigma>3)
                               | (Inr next_url, \<sigma>3) \<Rightarrow> (next_url, \<sigma>3)) of
                           (next_url, \<sigma>3) \<Rightarrow>
                             if truthy next_url
                             then scrape_all_books_loop_ibd L w max_pages next_url
                                    (page_number + 1) by_category' \<sigma>3
                             else Some (by_category', \<sigma>3)))))"

definition scrape_all_books_ibd ::
  "pylib \<Rightarrow> web \<Rightarrow> pystr \<Rightarrow> int option \<Rightarrow> system \<Rightarrow> (groups \<times> system) option" where
  "scrape_all_books_ibd L w start_url max_pages \<sigma> =
     scrape_all_books_loop_ibd L w max_pages (Some start_url) 1 [] \<sigma>"

section \<open>The Lister and the Crawler of books_data_images.py\<close>

definition listing_link_bdi ::
  "pylib \<Rightarrow> pystr \<Rightarrow> pystr option option option \<Rightarrow> pystr list \<Rightarrow> pystr list" where
  "listing_link_bdi L listing_url pod links =
     (case pod of
        Some (Some a) \<Rightarrow>
          (let href = strip (case a of None \<Rightarrow> [] | Some h \<Rightarrow> h)
           in if href \<noteq> [] then links @ [urljoin L listing_url href] else links)
      | _ \<Rightarrow> links)"

definition parse_listing_product_links ::
  "pylib \<Rightarrow> web \<Rightarrow> pystr \<Rightarrow> system \<Rightarrow> (error + pystr list) \<times> system" where
  "parse_listing_product_links L w listing_url \<sigma> =
     (case get_soup w listing_url \<sigma> of
        (Inl e, \<sigma>') \<Rightarrow> (Inl e, \<sigma>')
      | (Inr page, \<sigma>') \<Rightarrow>
          (Inr (fold (listing_link_bdi L listing_url) (product_pods page) []), \<sigma>'))"

definition get_next_page_url_bdi ::
  "pylib \<Rightarrow> web \<Rightarrow> pystr \<Rightarrow> system \<Rightarrow> (error + pystr option) \<times> system" where
  "get_next_page_url_bdi L w listing_url \<sigma> =
     (case get_soup w listing_url \<sigma> of
        (Inl e, \<sigma>') \<Rightarrow> (Inl e, \<sigma>')
      | (Inr page, \<sigma>') \<Rightarrow>
          (case pager_next page of
             Some (Some (Some href)) \<Rightarrow>
               (if href \<noteq> [] then Inr (Some (urljoin L listing_url href)) else Inr None)
           | _ \<Rightarrow> Inr None,
           \<sigma>'))"

text \<open>
  The \<open>for\<close> loop of \<open>scrape_all\<close> has no \<open>try\<close>: an exception of
  \<open>extract_book_data\<close> leaves the loop and the function.  \<open>d["image_url"]\<close> and the
  three other subscripts raise \<open>KeyError\<close> on a missing key.
\<close>

fun visit_links_bdi ::
  "pylib \<Rightarrow> web \<Rightarrow> pystr list \<Rightarrow> groups \<Rightarrow> system \<Rightarrow> (error + groups) \<times> system" where
  "visit_links_bdi L w [] g \<sigma> = (Inr g, \<sigma>)"
| "visit_links_bdi L w (url # links) g \<sigma> =
     (case extract_book_data L w url \<sigma> of
        (Inl e, \<sigma>1) \<Rightarrow> (Inl e, \<sigma>1)
      | (Inr d, \<sigma>1) \<Rightarrow>
          (case (map_of d ''image_url'', map_of d ''category'', map_of d ''upc'',
                 map_of d ''title'') of
             (Some image_url, Some category, Some upc, Some title) \<Rightarrow>
               (case download_image w image_url category upc title url \<sigma>1 of
                  (image_path, \<sigma>2) \<Rightarrow>
                    (let d' = dict_set d ''image_path'' image_path;
                         cat = por (dict_get d' ''category'' []) (str ''Default'')
                     in visit_links_bdi L w links (setdefault_append g cat d') \<sigma>2))
           | _ \<Rightarrow> (Inl KeyError, \<sigma>1)))"

partial_function (option) scrape_all_loop ::
  "pylib \<Rightarrow> web \<Rightarrow> int option \<Rightarrow> pystr option \<Rightarrow> int \<Rightarrow> groups \<Rightarrow> system
   \<Rightarrow> ((error + groups) \<times> system) option" where
  "scrape_all_loop L w max_pages page_url page_no data_by_cat \<sigma> =
     (case page_url of
        None \<Rightarrow> Some (Inr data_by_cat, \<sigma>)
      | Some url \<Rightarrow>
          if url = [] then Some (Inr data_by_cat, \<sigma>)
          else
            (case parse_listing_product_links L w url \<sigma> of
               (Inl e, \<sigma>1) \<Rightarrow> Some (Inl e, \<sigma>1)
             | (Inr links, \<sigma>1) \<Rightarrow>
                 (case visit_links_bdi L w links data_by_cat \<sigma>1 of
                    (Inl e, \<sigma>2) \<Rightarrow> Some (Inl e, \<sigma>2)
                  | (Inr data_by_cat', \<sigma>2) \<Rightarrow>
                      if (case max_pages of None \<Rightarrow> False | Some m \<Rightarrow> m \<le> page_no)
                      then Some (Inr data_by_cat', \<sigma>2)
                      else
                        (case get_next_page_url_bdi L w url \<sigma>2 of
                           (Inl e, \<sigma>3) \<Rightarrow> Some (Inl e, \<sigma>3)
                         | (Inr next_url, \<sigma>3) \<Rightarrow>
                             if truthy next_url
                             then scrape_all_loop L w max_pages next_url (page_no + 1)
                                    data_by_cat' \<sigma>3
                             else Some (Inr data_by_cat', \<sigma>3)))))"

definition scrape_all ::
  "pylib \<Rightarrow> web \<Rightarrow> pystr \<Rightarrow> int option \<Rightarrow> system \<Rightarrow> ((error + groups) \<times> system) option" where
  "scrape_all L w start_url max_pages \<sigma> =
     scrape_all_loop L w max_pages (Some start_url) 1 [] \<sigma>"

section \<open>The Exporter\<close>

text \<open>
  What the scripts use of \<open>pandas\<close>.  \<open>DataFrame(rows)\<close> of a list of dictionaries has
  the keys as columns, in the order of their first appearance, and a missing value
  (\<open>NaN\<close>) where a row lacks a key; the frame is modelled by its columns and the rows as
  they are, a key absent from a row being \<open>NaN\<close>.  \<open>df[c] = ""\<close> is \<open>set_column\<close>,
  \<open>df[cols]\<close> is \<open>select_columns\<close> and raises \<open>KeyError\<close> on a column that the frame
  lacks.  \<open>to_csv\<close> writes the header and one line per row, a missing value as the empty
  field; the written file is modelled by the header and the lines of fields, before
  quoting.
\<close>

record dataframe =
  df_columns :: "string list"
  df_rows :: "pydict list"

definition add_key :: "string \<Rightarrow> string list \<Rightarrow> string list" where
  "add_key k cs = (if k \<in> set cs then cs else cs @ [k])"

definition DataFrame :: "pydict list \<Rightarrow> dataframe" where
  "DataFrame rows =
     \<lparr>df_columns = fold (\<lambda>r cs. fold add_key (map fst r) cs) rows [], df_rows = rows\<rparr>"

definition set_column :: "string \<Rightarrow> pystr \<Rightarrow> dataframe \<Rightarrow> dataframe" where
  "set_column c v df =
     \<lparr>df_columns = add_key c (df_columns df), df_rows = map (\<lambda>r. dict_set r c v) (df_rows df)\<rparr>"

definition select_columns :: "string list \<Rightarrow> dataframe \<Rightarrow> error + dataframe" where
  "select_columns cs df =
     (if list_all (\<lambda>c. c \<in> set (df_columns df)) cs then Inr (df\<lparr>df_columns := cs\<rparr>)
      else Inl KeyError)"

type_synonym csv = "string list \<times> pystr list list"

definition to_csv :: "dataframe \<Rightarrow> csv" where
  "to_csv df = (df_columns df, map (\<lambda>r. map (\<lambda>c. dict_get r c []) (df_columns df)) (df_rows df))"

text \<open>\<open>write_csvs\<close> of books_data_images.py; the result is the list of the files written,
  each with its path, in the order of writing.\<close>

definition cols :: "string list" where
  "cols = [''title'', ''upc'', ''price_incl_tax_gbp'', ''price_excl_tax_gbp'', ''availability'',
           ''description'', ''category'', ''product_page_url'', ''image_url'', ''image_path'']"

definition check_column :: "string \<Rightarrow> dataframe \<Rightarrow> dataframe" where
  "check_column c df = (if c \<notin> set (df_columns df) then set_column c [] df else df)"

definition write_csv_bdi :: "pystr \<times> pydict list \<Rightarrow> (pystr \<times> csv) list \<Rightarrow> error + (pystr \<times> csv) list" where
  "write_csv_bdi entry written =
     (case entry of
        (cat, rows) \<Rightarrow>
          (case select_columns cols (fold check_column cols (DataFrame rows)) of
             Inl e \<Rightarrow> Inl e
           | Inr df \<Rightarrow>
               Inr (written @
                    [(path_join OUTPUT_DIR (cleaner (Some cat) @ str ''.csv''), to_csv df)])))"

definition write_csvs :: "groups \<Rightarrow> error + (pystr \<times> csv) list" where
  "write_csvs data_by_cat = for_each write_csv_bdi data_by_cat []"

text \<open>
  The export loop at the end of all_books_data.py: the frame is written as it is.  92 is
  the backslash, 45 the hyphen.
\<close>

definition save_group_abd :: "pystr \<times> pydict list \<Rightarrow> (pystr \<times> csv) list \<Rightarrow> (pystr \<times> csv) list" where
  "save_group_abd entry written =
     (case entry of
        (category_name, rows) \<Rightarrow>
          (let safe_name = por (strip (replace (replace category_name [47] [45]) [92] [45]))
                               (str ''Unknown'');
               out_path = path_join OUTPUT_DIR (safe_name @ str ''.csv'')
           in written @ [(out_path, to_csv (DataFrame rows))]))"

definition save_groups_abd :: "groups \<Rightarrow> (pystr \<times> csv) list" where
  "save_groups_abd grouped = fold save_group_abd grouped []"

section \<open>Concrete pages and webs\<close>

text \<open>
  Inputs on which the functions are run: a library whose \<open>urljoin\<close> returns the link
  it is given and whose tables are the ASCII ones, a page on which every query finds
  nothing, a web answer with a given status and page, and a run that starts with no
  request sent and no file on disk.  \<open>field\<close> reads a key of the dictionary that an
  Extractor returned.
\<close>

definition ascii_lib :: pylib where
  "ascii_lib =
     \<lparr>urljoin = (\<lambda>base href. href),
      lower = map (\<lambda>c. if 65 \<le> c \<and> c \<le> 90 then c + 32 else c),
      decimal = (\<lambda>c. 48 \<le> c \<and> c \<le> 57)\<rparr>"

definition blank_page :: soup where
  "blank_page =
     \<lparr>h1 = None, spec_table = None, product_description = None, breadcrumb = [],
      gallery_img = None, product_pods = [], pager_next = None\<rparr>"

definition served :: "nat \<Rightarrow> soup \<Rightarrow> outcome" where
  "served st page =
     Response \<lparr>status_code = st, content_type = None, parsed = page, chunks = [],
               stream_breaks = False\<rparr>"

definition fresh :: system where
  "fresh = \<lparr>sent = [], files = Map.empty\<rparr>"

definition field :: "(error + pydict) \<times> system \<Rightarrow> string \<Rightarrow> pystr option" where
  "field res k = (case fst res of Inl e \<Rightarrow> None | Inr d \<Rightarrow> map_of d k)"

definition price_page :: soup where
  "price_page =
     blank_page\<lparr>h1 := Some (str ''A Light in the Attic''),
       spec_table := Some [ [(TH, str ''UPC''), (TD, str ''a897fe39b1053632'')],
                           [(TH, str ''Price (incl. tax)''), (TD, pound @ str ''51.77'')] ]\<rparr>"

text \<open>\<open>key_of\<close> reads a key of the result of the part of an Extractor that works on the
  parse tree.  A product page with the breadcrumb of the site, and one with a breadcrumb of
  five levels.\<close>

definition key_of :: "error + pydict \<Rightarrow> string \<Rightarrow> pystr option" where
  "key_of res k = (case res of Inl e \<Rightarrow> None | Inr d \<Rightarrow> map_of d k)"

definition poetry_page :: soup where
  "poetry_page =
     blank_page\<lparr>h1 := Some (str ''Shakespeare's Sonnets''),
       breadcrumb := [Link (str ''Home''), Link (str ''Books''), Link (str ''Poetry''),
                      Plain (str ''Shakespeare's Sonnets'')]\<rparr>"

definition five_level_page :: soup where
  "five_level_page =
     blank_page\<lparr>h1 := Some (str ''Shakespeare's Sonnets''),
       breadcrumb := [Link (str ''Home''), Link (str ''Books''), Link (str ''Fiction''),
                      Link (str ''Poetry''), Plain (str ''Shakespeare's Sonnets'')]\<rparr>"

text \<open>
  A listing of two products and no pager.  In \<open>shop\<close> the listing is at \<open>list\<close>, the
  product at \<open>good\<close> is served and the product at \<open>bad\<close> gets no response;
  \<open>poetry_abd\<close> is what all_books_data.py extracts from the page at \<open>good\<close>.
\<close>

definition listing_page :: soup where
  "listing_page =
     blank_page\<lparr>product_pods := [Some (Some (Some (str ''bad''))), Some (Some (Some (str ''good'')))]\<rparr>"

definition shop :: web where
  "shop hist req =
     (if fst req = str ''list'' then served 200 listing_page
      else if fst req = str ''good'' then served 200 poetry_page
      else NoResponse)"

definition poetry_abd :: pydict where
  "poetry_abd =
     [(''title'', str ''Shakespeare's Sonnets''), (''upc'', []), (''price_with_tax'', []),
      (''price_without_tax'', []), (''availability'', []),
      (''description'', str ''Pas de description''), (''category'', str ''Poetry''),
      (''product_url'', str ''good'')]"

text \<open>
  The destination path that \<open>download_image\<close> of books_data_images.py computes
  (\<open>folder\<close>, \<open>name\<close>, \<open>dest\<close>) and the one that \<open>save_image\<close> of
  images_book_data.py computes (\<open>folder\<close>, \<open>ext\<close>, \<open>base_name\<close>, \<open>dest_path\<close>), as
  functions of the arguments.  Then image answers: a web that serves a JPEG in two chunks,
  one whose stream breaks after the first chunk, one that serves a web page with status
  200; and a disk that already holds the image.
\<close>

definition dest_bdi :: "pystr \<Rightarrow> pystr \<Rightarrow> pystr \<Rightarrow> pystr" where
  "dest_bdi category upc title =
     path_join (path_join IMAGES_DIR (cleaner (Some category)))
       (cleaner (Some (por (por upc title) (str ''image''))) @ str ''.jpg'')"

definition dest_path_ibd :: "pylib \<Rightarrow> pystr \<Rightarrow> pystr \<Rightarrow> pystr \<Rightarrow> pystr \<Rightarrow> pystr" where
  "dest_path_ibd L image_url category upc title =
     (let ext0 = lower L (splitext_ext (basename (takeWhile (\<lambda>c. c \<noteq> 63) image_url)))
      in path_join (path_join IMAGES_DIR (sanitize (Some (por category (str ''Unknown'')))))
           (sanitize (Some (por (por upc title) (str ''image''))) @
            (if ext0 \<in> set [str ''.jpg'', str ''.jpeg'', str ''.png'', str ''.gif'', str ''.webp'']
             then ext0 else str ''.jpg'')))"

definition image_reply :: "nat \<Rightarrow> string \<Rightarrow> bytes list \<Rightarrow> bool \<Rightarrow> outcome" where
  "image_reply st ctype body breaks =
     Response \<lparr>status_code = st, content_type = Some (str ctype), parsed = blank_page,
               chunks = body, stream_breaks = breaks\<rparr>"

definition cover_jpg :: pystr where
  "cover_jpg = str ''http://shop/media/cover.jpg''"

definition poetry_jpg :: pystr where
  "poetry_jpg = str ''books_images/Poetry/a897.jpg''"

definition stocked :: system where
  "stocked = \<lparr>sent = [], files = [poetry_jpg \<mapsto> ''JPEG'']\<rparr>"

definition image_web :: web where
  "image_web hist req = image_reply 200 ''image/jpeg'' [''JP'', ''EG''] False"

definition breaking_web :: web where
  "breaking_web hist req = image_reply 200 ''image/jpeg'' [''JP''] True"

definition html_web :: web where
  "html_web hist req = image_reply 200 ''text/html'' [''<html>''] False"

text \<open>
  The same listing with a pager, the link to \<open>page2\<close>, which gets no response.
  \<open>paged_shop\<close> answers every request of the listing; \<open>flaky_shop\<close> answers the first
  request of the listing and gives no response to any later one.  \<open>poetry_ibd\<close> is what
  images_book_data.py extracts from the page at \<open>good\<close>.
\<close>

definition paged_listing :: soup where
  "paged_listing = listing_page\<lparr>pager_next := Some (Some (Some (str ''page2'')))\<rparr>"

definition paged_shop :: web where
  "paged_shop hist req =
     (if fst req = str ''list'' then served 200 paged_listing
      else if fst req = str ''good'' then served 200 poetry_page
      else NoResponse)"

definition flaky_shop :: web where
  "flaky_shop hist req =
     (if fst req = str ''list''
      then (if (str ''list'', None) \<in> set hist then NoResponse else served 200 paged_listing)
      else if fst req = str ''good'' then served 200 poetry_page
      else NoResponse)"

definition poetry_ibd :: pydict where
  "poetry_ibd =
     [(''title'', str ''Shakespeare's Sonnets''), (''upc'', []), (''price_incl_tax_gbp'', []),
      (''price_excl_tax_gbp'', []), (''availability'', []), (''description'', []),
      (''category'', str ''Poetry''), (''product_page_url'', str ''good''), (''image_url'', []),
      (''image_path'', [])]"

text \<open>
  The column list as the specification writes it; the dictionary that books_data_images.py
  extracts from the page at \<open>good\<close>, before \<open>image_path\<close> is set; and the invariant of
  the column check of the Exporter: every key of every row is a column of the frame.
\<close>

definition spec_columns :: "string list" where
  "spec_columns = [''title'', ''upc'', ''price_incl_tax'', ''price_excl_tax'', ''availability'',
                   ''description'', ''category'', ''product_page_url'', ''image_url'', ''image_path'']"

definition poetry_bdi :: pydict where
  "poetry_bdi =
     [(''title'', str ''Shakespeare's Sonnets''), (''upc'', []), (''price_incl_tax_gbp'', []),
      (''price_excl_tax_gbp'', []), (''availability'', []), (''description'', []),
      (''category'', str ''Poetry''), (''product_page_url'', str ''good''), (''image_url'', [])]"

definition covered :: "dataframe \<Rightarrow> bool" where
  "covered df \<longleftrightarrow> list_all (\<lambda>r. list_all (\<lambda>k. k \<in> set (df_columns df)) (map fst r)) (df_rows df)"

text \<open>
  A table in which every row is a label cell followed by a value cell, as on the site;
  \<open>last_value\<close> is the stripped value of the last row whose stripped label is the
  key.  \<open>stock_page\<close> is a product page with a given availability text.
\<close>

definition two_cell_rows :: "(pystr \<times> pystr) list \<Rightarrow> tr list" where
  "two_cell_rows kvs = map (\<lambda>(k, t). [(TH, k), (TD, t)]) kvs"

fun last_value :: "pystr \<Rightarrow> (pystr \<times> pystr) list \<Rightarrow> pystr option" where
  "last_value key [] = None"
| "last_value key ((k, t) # kvs) =
     (case last_value key kvs of
        Some v \<Rightarrow> Some v
      | None \<Rightarrow> if strip k = key then Some (strip t) else None)"

definition stock_page :: "pystr \<Rightarrow> soup" where
  "stock_page val =
     blank_page\<lparr>h1 := Some (str ''A Light in the Attic''),
       spec_table := Some (two_cell_rows [(str ''UPC'', str ''a897fe39b1053632''),
                                          (str ''Availability'', val)])\<rparr>"

section \<open>The Asset Fetcher of test2_image.py\<close>

text \<open>
  \<open>save_image\<close> of test2_image.py appends one record to \<open>images_log\<close> on every call.
  In the record the status is absent, \<open>cached\<close> or the status code of the response, and
  the error is the exception that was caught.  \<open>fetch_image_t2i\<close> is the part of the
  function from the request on (the \<open>try\<close> block and its handler); it returns the
  record and the new state.  59 is the semicolon.
\<close>

datatype http_status = NoStatus | Cached | Status nat

record log_entry =
  lg_product_page_url :: pystr
  lg_title :: pystr
  lg_upc :: pystr
  lg_category :: pystr
  lg_image_url :: pystr
  lg_image_path :: pystr
  lg_downloaded :: bool
  lg_http_status :: http_status
  lg_bytes :: nat
  lg_error :: "error option"

definition guess_ext_from_ct :: "pylib \<Rightarrow> pystr \<Rightarrow> pystr \<Rightarrow> pystr" where
  "guess_ext_from_ct L ctype default_ext =
     (if ctype = [] then default_ext
      else
        (let ct = lower L (strip (takeWhile (\<lambda>c. c \<noteq> 59) ctype))
         in dict_get
              [(str ''image/jpeg'', str ''.jpg''), (str ''image/jpg'', str ''.jpg''),
               (str ''image/png'', str ''.png''), (str ''image/gif'', str ''.gif''),
               (str ''image/webp'', str ''.webp''), (str ''image/bmp'', str ''.bmp''),
               (str ''image/tiff'', str ''.tif''), (str ''image/svg+xml'', str ''.svg'')]
              ct default_ext))"

definition fetch_image_t2i ::
  "pylib \<Rightarrow> web \<Rightarrow> pystr \<Rightarrow> pystr \<Rightarrow> pystr \<Rightarrow> pystr \<Rightarrow> pystr \<Rightarrow> pystr \<Rightarrow> log_entry
   \<Rightarrow> system \<Rightarrow> log_entry \<times> system" where
  "fetch_image_t2i L w image_url referer_url folder base_name ext dest_path entry \<sigma> =
     (case http_get w image_url (if referer_url \<noteq> [] then Some referer_url else None) \<sigma> of
        (Inl e, \<sigma>1) \<Rightarrow> (entry\<lparr>lg_error := Some e\<rparr>, \<sigma>1)
      | (Inr r, \<sigma>1) \<Rightarrow>
          (let entry1 = entry\<lparr>lg_http_status := Status (status_code r)\<rparr> in
           case raise_for_status r of
             Inl e \<Rightarrow> (entry1\<lparr>lg_error := Some e\<rparr>, \<sigma>1)
           | Inr _ \<Rightarrow>
               (let ctype = (case content_type r of None \<Rightarrow> [] | Some c \<Rightarrow> c) in
                if take 6 (lower L ctype) \<noteq> str ''image/''
                then (entry1\<lparr>lg_error := Some ValueError\<rparr>, \<sigma>1)
                else
                  (let guessed_ext = guess_ext_from_ct L ctype ext;
                       dest_path' = (if guessed_ext \<noteq> ext
                                     then path_join folder (base_name @ guessed_ext)
                                     else dest_path);
                       tmp_path = dest_path' @ str ''.part''
                   in case write_stream tmp_path r \<sigma>1 of
                        (Inl e, \<sigma>2) \<Rightarrow> (entry1\<lparr>lg_error := Some e\<rparr>, \<sigma>2)
                      | (Inr _, \<sigma>2) \<Rightarrow>
                          (entry1\<lparr>lg_image_path := dest_path', lg_downloaded := True,
                                   lg_bytes := length (concat (chunks r))\<rparr>,
                           os_replace tmp_path dest_path' \<sigma>2)))))"

definition save_image_t2i ::
  "pylib \<Rightarrow> web \<Rightarrow> pystr \<Rightarrow> pystr \<Rightarrow> pystr \<Rightarrow> pystr \<Rightarrow> pystr
   \<Rightarrow> log_entry list \<times> system \<Rightarrow> pystr \<times> log_entry list \<times> system" where
  "save_image_t2i L w image_url category upc title referer_url st =
     (let images_log = fst st; \<sigma> = snd st;
          entry = \<lparr>lg_product_page_url = referer_url, lg_title = title, lg_upc = upc,
                   lg_category = category, lg_image_url = image_url, lg_image_path = [],
                   lg_downloaded = False, lg_http_status = NoStatus, lg_bytes = 0,
                   lg_error = None\<rparr>
      in if image_url = [] then ([], images_log @ [entry], \<sigma>)
         else
           (let folder = path_join IMAGES_DIR (cleaner (Some (por category (str ''Unknown''))));
                url_path = takeWhile (\<lambda>c. c \<noteq> 63) image_url;
                ext = por (lower L (splitext_ext (basename url_path))) (str ''.jpg'');
                base_name = cleaner (Some (por (por upc title) (str ''image'')));
                dest_path = path_join folder (base_name @ ext);
                cached = (case files \<sigma> dest_path of None \<Rightarrow> [] | Some b \<Rightarrow> b)
            in if cached \<noteq> []
               then (dest_path,
                     images_log @
                       [entry\<lparr>lg_image_path := dest_path, lg_downloaded := True,
                              lg_http_status := Cached, lg_bytes := length cached\<rparr>],
                     \<sigma>)
               else
                 (case fetch_image_t2i L w image_url referer_url folder base_name ext dest_path
                         entry \<sigma> of
                    (entry', \<sigma>') \<Rightarrow> (lg_image_path entry', images_log @ [entry'], \<sigma>'))))"

text \<open>The decimal digits of ASCII, \<open>0\<close> to \<open>9\<close>.\<close>

definition ascii_digit :: "codepoint \<Rightarrow> bool" where
  "ascii_digit c \<longleftrightarrow> 48 \<le> c \<and> c \<le> 57"

section \<open>Properties of the sanitizer\<close>

lemma keep_re_sub_unsafe: "c \<in> set (re_sub_unsafe s) \<Longrightarrow> keep c"
  by (induction s rule: re_sub_unsafe.induct) (auto simp: keep_def split: if_splits)

lemma set_strip_chars: "c \<in> set (strip_chars cs s) \<Longrightarrow> c \<in> set s"
  unfolding strip_chars_def by (auto dest!: set_dropWhileD)

lemma keep_file: "c \<in> set (str ''file'') \<Longrightarrow> keep c"
  by (auto simp: str_def keep_def)

text \<open>
  Claim C10.  For every input, a string or \<open>None\<close> (the empty string included), the
  sanitizer returns a non-empty string all of whose code points are in
  \<open>[A-Za-z0-9_-]\<close>.
\<close>

theorem cleaner_nonempty_safe: "cleaner s \<noteq> [] \<and> list_all keep (cleaner s)"
proof -
  have ne: "cleaner s \<noteq> []"
    by (simp add: cleaner_def Let_def str_def)
  have "keep c" if c: "c \<in> set (cleaner s)" for c
  proof (cases "strip_chars (str ''_'') (re_sub_unsafe (case s of None \<Rightarrow> [] | Some x \<Rightarrow> x)) = []")
    case True
    with c have "c \<in> set (str ''file'')" by (simp add: cleaner_def)
    then show ?thesis by (rule keep_file)
  next
    case False
    with c have "c \<in> set (strip_chars (str ''_'') (re_sub_unsafe (case s of None \<Rightarrow> [] | Some x \<Rightarrow> x)))"
      by (simp add: cleaner_def)
    then show ?thesis by (blast intro: keep_re_sub_unsafe dest: set_strip_chars)
  qed
  then show ?thesis using ne by (simp add: list_all_iff)
qed

theorem cleaner_nonempty_safe_witness:
  "cleaner (Some (str ''Sci  Fi!'')) \<noteq> [] \<and> list_all keep (cleaner (Some (str ''Sci  Fi!'')))"
  by (rule cleaner_nonempty_safe)

lemma cleaner_examples:
  "cleaner None = str ''file''"
  "cleaner (Some []) = str ''file''"
  "cleaner (Some (str ''Sci  Fi!'')) = str ''Sci_Fi''"
  by (simp_all add: cleaner_def str_def strip_chars_def keep_def)

section \<open>Price fields\<close>

lemmas page_defs = blank_page_def served_def fresh_def field_def

lemmas str_defs = str_def strip_def isspace_def replace_def pound_def not_sign_pound_def

lemmas http_defs = get_soup_def get_soup_unchecked_def http_get_def raise_for_status_def

lemma replace_from_single: "replace_from [g] [] s = filter (\<lambda>c. c \<noteq> g) s"
  by (induction s) auto

lemma replace_pound: "replace val pound [] = filter (\<lambda>c. c \<noteq> 163) val"
  by (simp add: replace_def pound_def replace_from_single)

text \<open>
  In all_books_data.py a price row sets the price to the stripped text of the value cell
  without its pound signs, every other code point kept in place.
\<close>

lemma table_row_abd_price:
  "strip k = str ''Price (incl. tax)'' \<Longrightarrow>
   table_row_abd [(a, k), (b, t)] v =
     Inr (v\<lparr>t_price_incl_tax := filter (\<lambda>c. c \<noteq> 163) (strip t)\<rparr>)"
  by (simp add: table_row_abd_def Let_def replace_pound str_def)

lemma scrape_book_abd_strips_pound:
  "field (scrape_book_abd (\<lambda>_ _. served 200 price_page) (str ''u'') fresh) ''price_with_tax''
     = Some (str ''51.77'')"
  by (simp add: scrape_book_abd_def book_of_soup_abd_def http_defs page_defs price_page_def
      str_defs table_row_abd_def empty_fields_def Let_def category_of_links_def)

text \<open>
  Claim C3.  The price field is the matched value without the currency glyph, so that
  a pound sign followed by \<open>51.77\<close> gives \<open>51.77\<close>.  \<open>scrape_book\<close> of
  images_book_data.py removes the two-character string U+00AC U+00A3 instead of the
  pound sign U+00A3: on that cell its price field is the whole cell text, the pound sign
  still there.
\<close>

theorem scrape_book_ibd_keeps_pound:
  "field (scrape_book_ibd L (\<lambda>_ _. served 200 price_page) (str ''u'') fresh) ''price_incl_tax_gbp''
     = Some (pound @ str ''51.77'') \<and>
   field (scrape_book_ibd L (\<lambda>_ _. served 200 price_page) (str ''u'') fresh) ''price_incl_tax_gbp''
     \<noteq> Some (str ''51.77'')"
  by (simp add: scrape_book_ibd_def http_defs page_defs price_page_def str_defs
      table_row_ibd_def book_dict_def empty_fields_def Let_def)

section \<open>The rows of the attributes table never raise\<close>

text \<open>
  When the value has a left parenthesis, \<open>split('(')\<close> has a second element, so the two
  subscripts of the availability expression are in range and the loop over the rows of
  all_books_data.py always ends with values for its four variables.
\<close>

lemma split_nonempty: "split s c \<noteq> []"
  by (induction s) (auto split: list.splits)

lemma split_hd: "hd (split s c) = takeWhile (\<lambda>x. x \<noteq> c) s"
  by (induction s) (auto split: list.splits simp: split_nonempty)

lemma split_length: "c \<in> set s \<Longrightarrow> 2 \<le> length (split s c)"
  by (induction s) (auto split: list.splits simp: split_nonempty)

lemma split_second:
  "c \<in> set s \<Longrightarrow> split s c ! 1 = takeWhile (\<lambda>x. x \<noteq> c) (tl (dropWhile (\<lambda>x. x \<noteq> c) s))"
proof (induction s)
  case Nil
  then show ?case by simp
next
  case (Cons a s)
  show ?case
  proof (cases "a = c")
    case True
    then show ?thesis using split_hd[of s c] split_nonempty[of s c]
      by (cases "split s c") (auto simp: nth_Cons')
  next
    case False
    with Cons show ?thesis
      by (cases "split s c") (auto simp: split_nonempty)
  qed
qed

lemma count_in_parens_eq:
  assumes "40 \<in> set val"
  shows "count_in_parens val =
           Inr (takeWhile (\<lambda>c. c \<noteq> 32) (takeWhile (\<lambda>c. c \<noteq> 40) (tl (dropWhile (\<lambda>c. c \<noteq> 40) val))))"
proof -
  have l: "1 < length (split val 40)" using split_length[OF assms] by simp
  have n: "0 < length (split p 32)" for p using split_nonempty[of p 32] by simp
  show ?thesis
    using l n split_second[OF assms] split_hd
    by (simp add: count_in_parens_def item_def hd_conv_nth[symmetric] split_nonempty)
qed

lemma table_row_abd_total: "\<exists>v'. table_row_abd cells v = Inr v'"
  by (auto simp: table_row_abd_def Let_def count_in_parens_eq)

lemma for_each_table_row_abd_total: "\<exists>v'. for_each table_row_abd rows v = Inr v'"
proof (induction rows arbitrary: v)
  case Nil
  then show ?case by simp
next
  case (Cons r rows)
  obtain v1 where "table_row_abd r v = Inr v1" using table_row_abd_total by blast
  then show ?case using Cons[of v1] by simp
qed

section \<open>Category\<close>

lemma book_of_soup_abd_category:
  "key_of (book_of_soup_abd url page) ''category'' = Some (category_of_links page)"
proof (cases "spec_table page")
  case None
  then show ?thesis by (simp add: key_of_def book_of_soup_abd_def Let_def)
next
  case (Some rows)
  obtain v where "for_each table_row_abd rows empty_fields = Inr v"
    using for_each_table_row_abd_total by blast
  with Some show ?thesis by (simp add: key_of_def book_of_soup_abd_def Let_def)
qed

lemma anchor_texts_links: "anchor_texts (map Link names @ [Plain t]) = names"
  by (induction names) auto

text \<open>
  What the two scripts compute.  In books_data_images.py the category of a page with a
  heading is the third breadcrumb entry when the breadcrumb has at least four entries,
  and \<open>Default\<close> otherwise.  In all_books_data.py, on a breadcrumb made of links followed
  by the plain title, the category is the second-to-last entry when there are at least
  four entries, and \<open>Unknown\<close> otherwise.
\<close>

lemma book_of_soup_bdi_category:
  "h1 page \<noteq> None \<Longrightarrow>
   key_of (book_of_soup_bdi L url page) ''category'' =
     Some (if 4 \<le> length (breadcrumb page) then strip (crumb_text (breadcrumb page ! 2))
           else str ''Default'')"
  by (auto simp: key_of_def book_of_soup_bdi_def Let_def)

lemma book_of_soup_abd_category_links:
  assumes bc: "breadcrumb page = map Link names @ [Plain t]"
  shows "key_of (book_of_soup_abd url page) ''category'' =
           Some (if 4 \<le> length (breadcrumb page)
                 then strip (crumb_text (breadcrumb page ! (length (breadcrumb page) - 2)))
                 else str ''Unknown'')"
proof -
  have "3 \<le> length names \<Longrightarrow>
        crumb_text ((map Link names @ [Plain t]) ! (length names - Suc 0)) = last names"
    by (cases names) (simp_all add: nth_append last_conv_nth)
  then show ?thesis
    using bc
    by (auto simp: book_of_soup_abd_category category_of_links_def anchor_texts_links Let_def)
qed

text \<open>
  Claim C5.  With at least four breadcrumb entries the category must be the
  second-to-last entry.  \<open>extract_book_data\<close> of books_data_images.py takes the entry of
  index 2: on a breadcrumb of five levels, Home, Books, Fiction, Poetry and the title, it
  answers the third entry, Fiction, and not the second-to-last one, Poetry.
\<close>

theorem extract_book_data_takes_third_crumb:
  "length (breadcrumb five_level_page) = 5 \<and>
   crumb_text (breadcrumb five_level_page ! (length (breadcrumb five_level_page) - 2)) = str ''Poetry'' \<and>
   field (extract_book_data ascii_lib (\<lambda>_ _. served 200 five_level_page) (str ''u'') fresh) ''category''
     = Some (str ''Fiction'') \<and>
   field (extract_book_data ascii_lib (\<lambda>_ _. served 200 five_level_page) (str ''u'') fresh) ''category''
     \<noteq> Some (str ''Poetry'')"
  by (simp add: extract_book_data_def book_of_soup_bdi_def http_defs page_defs five_level_page_def
      str_defs Let_def dict_get_def ascii_lib_def)

text \<open>
  On the same page \<open>scrape_book\<close> of all_books_data.py answers Poetry, the second-to-last
  entry, and so does \<open>scrape_book\<close> of images_book_data.py.
\<close>

lemma scrape_book_abd_five_levels:
  "field (scrape_book_abd (\<lambda>_ _. served 200 five_level_page) (str ''u'') fresh) ''category''
     = Some (str ''Poetry'')"
  by (simp add: scrape_book_abd_def book_of_soup_abd_def http_defs page_defs five_level_page_def
      str_defs Let_def category_of_links_def)

lemma scrape_book_ibd_five_levels:
  "field (scrape_book_ibd L (\<lambda>_ _. served 200 five_level_page) (str ''u'') fresh) ''category''
     = Some (str ''Poetry'')"
  by (simp add: scrape_book_ibd_def http_defs page_defs five_level_page_def
      str_defs Let_def category_of_links_def book_dict_def)

text \<open>
  all_books_data.py counts the links, not the entries: a breadcrumb of three entries
  that are all links gets the last link as category, where books_data_images.py answers
  the default label.
\<close>

lemma scrape_book_abd_three_links:
  "field (scrape_book_abd
            (\<lambda>_ _. served 200 (blank_page\<lparr>breadcrumb :=
                       [Link (str ''Home''), Link (str ''Books''), Link (str ''Poetry'')]\<rparr>))
            (str ''u'') fresh) ''category''
     = Some (str ''Poetry'')"
  by (simp add: scrape_book_abd_def book_of_soup_abd_def http_defs page_defs
      str_defs Let_def category_of_links_def)

section \<open>Failures of the Lister and of single products\<close>

lemmas listing_defs = get_book_urls_from_page_abd_def get_next_page_url_abd_def book_link_abd_def
  parse_listing_product_links_def get_next_page_url_bdi_def listing_link_bdi_def
  get_book_urls_from_page_ibd_def get_next_page_url_ibd_def book_link_ibd_def

text \<open>
  With \<open>get_soup\<close> a failure status of a listing page is an exception of the Lister of
  books_data_images.py, and a pager whose link has no \<open>href\<close> is no next page.
\<close>

lemma get_soup_status:
  "400 \<le> st \<Longrightarrow> st < 600 \<Longrightarrow>
   get_soup (\<lambda>_ _. served st page) url \<sigma> = (Inl (HTTPError st), \<sigma>\<lparr>sent := sent \<sigma> @ [(url, None)]\<rparr>)"
  by (simp add: http_defs served_def)

lemma parse_listing_product_links_status:
  "400 \<le> st \<Longrightarrow> st < 600 \<Longrightarrow>
   parse_listing_product_links L (\<lambda>_ _. served st page) url \<sigma> =
     (Inl (HTTPError st), \<sigma>\<lparr>sent := sent \<sigma> @ [(url, None)]\<rparr>)"
  by (simp add: parse_listing_product_links_def get_soup_status)

lemma get_next_page_url_bdi_no_href:
  "get_next_page_url_bdi L (\<lambda>_ _. served 200 (blank_page\<lparr>pager_next := Some (Some None)\<rparr>)) url \<sigma> =
     (Inr None, \<sigma>\<lparr>sent := sent \<sigma> @ [(url, None)]\<rparr>)"
  by (simp add: listing_defs http_defs page_defs)

text \<open>
  Claim C8.  A listing fetch that fails at the HTTP-status level must reach the Crawler as
  a failure, and a malformed pager is no error.  In all_books_data.py there is no
  \<open>raise_for_status\<close>: a listing answered with status 404 and an error page gives the
  empty list of products, and a pager link without \<open>href\<close> raises \<open>KeyError\<close>.
\<close>

theorem get_book_urls_from_page_abd_absorbs_status:
  "get_book_urls_from_page_abd L (\<lambda>_ _. served 404 blank_page) url \<sigma> =
     (Inr [], \<sigma>\<lparr>sent := sent \<sigma> @ [(url, None)]\<rparr>) \<and>
   get_next_page_url_abd L (\<lambda>_ _. served 200 (blank_page\<lparr>pager_next := Some (Some None)\<rparr>)) url \<sigma> =
     (Inl KeyError, \<sigma>\<lparr>sent := sent \<sigma> @ [(url, None)]\<rparr>)"
  by (simp add: listing_defs http_defs page_defs)

text \<open>The crawl of all_books_data.py then ends as if the site had no product.\<close>

lemma scrape_all_books_abd_empty_on_status:
  "scrape_all_books_abd L (\<lambda>_ _. served 404 blank_page) (str ''list'') None fresh =
     Some (Inr [], \<lparr>sent = [(str ''list'', None), (str ''list'', None)], files = Map.empty\<rparr>)"
  unfolding scrape_all_books_abd_def
  apply (subst scrape_all_books_loop_abd.simps)
  apply (simp add: listing_defs http_defs page_defs str_def)
  apply (subst scrape_all_books_loop_abd.simps)
  apply simp
  done

lemmas extract_defs = scrape_book_abd_def book_of_soup_abd_def table_row_abd_def
  category_of_links_def empty_fields_def extract_book_data_def book_of_soup_bdi_def
  specs_row_def dict_get_def

text \<open>
  Claim C1.  A product whose extraction fails must be skipped and the products after it
  still processed.  \<open>scrape_all\<close> of books_data_images.py has no \<open>try\<close> around the
  extraction: on the listing of \<open>bad\<close> and \<open>good\<close> the exception of \<open>bad\<close> ends the
  crawl, \<open>good\<close> is never requested and no group is returned.
\<close>

theorem scrape_all_aborts_on_product_failure:
  "scrape_all ascii_lib shop (str ''list'') None fresh =
     Some (Inl ConnectionError, \<lparr>sent = [(str ''list'', None), (str ''bad'', None)], files = Map.empty\<rparr>)"
  unfolding scrape_all_def
  apply (subst scrape_all_loop.simps)
  apply (simp add: listing_defs http_defs page_defs shop_def listing_page_def str_defs extract_defs
      Let_def ascii_lib_def)
  done

text \<open>
  \<open>scrape_all_books\<close> of all_books_data.py on the same site skips \<open>bad\<close> and returns
  \<open>good\<close>; in general a product whose extraction raises leaves the groups as they were
  and the loop goes on with the products after it.
\<close>

lemma scrape_all_books_abd_skips_product_failure:
  "scrape_all_books_abd ascii_lib shop (str ''list'') None fresh =
     Some (Inr [(str ''Poetry'', [poetry_abd])],
           \<lparr>sent = [(str ''list'', None), (str ''bad'', None), (str ''good'', None),
                    (str ''list'', None)], files = Map.empty\<rparr>)"
  unfolding scrape_all_books_abd_def
  apply (subst scrape_all_books_loop_abd.simps)
  apply (simp add: listing_defs http_defs page_defs shop_def listing_page_def str_defs extract_defs Let_def
     visit_book_abd_def poetry_page_def ascii_lib_def por_def poetry_abd_def)
  apply (subst scrape_all_books_loop_abd.simps)
  apply simp
  done

lemma visit_book_abd_failure:
  "fst (scrape_book_abd w u (snd st)) = Inl e \<Longrightarrow> fst (visit_book_abd w u st) = fst st"
  by (cases "scrape_book_abd w u (snd st)") (simp add: visit_book_abd_def)

lemma visit_book_ibd_failure:
  "fst (scrape_book_ibd L w u (snd st)) = Inl e \<Longrightarrow> fst (visit_book_ibd L w u st) = fst st"
  by (cases "scrape_book_ibd L w u (snd st)") (simp add: visit_book_ibd_def)

lemma fold_visit_book_abd_continues:
  "fold (visit_book_abd w) (before @ u # after) st =
     fold (visit_book_abd w) after (visit_book_abd w u (fold (visit_book_abd w) before st))"
  by simp

lemma fold_visit_book_ibd_continues:
  "fold (visit_book_ibd L w) (before @ u # after) st =
     fold (visit_book_ibd L w) after (visit_book_ibd L w u (fold (visit_book_ibd L w) before st))"
  by simp

section \<open>The Asset Fetcher\<close>

lemmas path_defs = path_join_def basename_def splitext_ext_def IMAGES_DIR_def OUTPUT_DIR_def
  cleaner_def sanitize_def strip_chars_def keep_def por_def

lemma dest_examples:
  "dest_bdi (str ''Poetry'') (str ''a897'') (str ''T'') = str ''books_images/Poetry/a897.jpg''"
  "dest_path_ibd ascii_lib cover_jpg (str ''Poetry'') (str ''a897'') (str ''T'') = str ''books_images/Poetry/a897.jpg''"
  by (simp_all add: dest_bdi_def dest_path_ibd_def path_defs str_def ascii_lib_def cover_jpg_def Let_def)

lemma download_image_dest:
  "image_url \<noteq> [] \<Longrightarrow>
   download_image w image_url category upc title referer_url \<sigma> =
     (let dest = dest_bdi category upc title in
      if (case files \<sigma> dest of None \<Rightarrow> False | Some b \<Rightarrow> 0 < length b) then (dest, \<sigma>)
      else
        (case http_get w image_url (Some referer_url) \<sigma> of
           (Inl e, \<sigma>1) \<Rightarrow> ([], \<sigma>1)
         | (Inr r, \<sigma>1) \<Rightarrow>
             (case raise_for_status r of
                Inl e \<Rightarrow> ([], \<sigma>1)
              | Inr _ \<Rightarrow>
                  (case write_stream (dest @ str ''.part'') r \<sigma>1 of
                     (Inl e, \<sigma>2) \<Rightarrow> ([], \<sigma>2)
                   | (Inr _, \<sigma>2) \<Rightarrow> (dest, os_replace (dest @ str ''.part'') dest \<sigma>2)))))"
  by (simp add: download_image_def dest_bdi_def Let_def split: prod.splits sum.splits)

lemma save_image_ibd_dest:
  "image_url \<noteq> [] \<Longrightarrow>
   save_image_ibd L w image_url category upc title referer_url \<sigma> =
     (let dest_path = dest_path_ibd L image_url category upc title in
      if files \<sigma> dest_path \<noteq> None then (Inr dest_path, \<sigma>)
      else
        (case http_get w image_url None \<sigma> of
           (Inl e, \<sigma>1) \<Rightarrow> (Inl e, \<sigma>1)
         | (Inr r, \<sigma>1) \<Rightarrow>
             (case raise_for_status r of
                Inr _ \<Rightarrow>
                  (case write_stream dest_path r \<sigma>1 of
                     (Inl e, \<sigma>2) \<Rightarrow> (Inl e, \<sigma>2)
                   | (Inr _, \<sigma>2) \<Rightarrow> (Inr dest_path, \<sigma>2))
              | Inl _ \<Rightarrow>
                  (case http_get w image_url (if truthy referer_url then referer_url else None) \<sigma>1 of
                     (Inl e, \<sigma>2) \<Rightarrow> (Inl e, \<sigma>2)
                   | (Inr r2, \<sigma>2) \<Rightarrow>
                       (case raise_for_status r2 of
                          Inl e \<Rightarrow> (Inl e, \<sigma>2)
                        | Inr _ \<Rightarrow>
                            (case write_stream dest_path r2 \<sigma>2 of
                               (Inl e, \<sigma>3) \<Rightarrow> (Inl e, \<sigma>3)
                             | (Inr _, \<sigma>3) \<Rightarrow> (Inr dest_path, \<sigma>3)))))))"
  by (simp add: save_image_ibd_def dest_path_ibd_def Let_def split: prod.splits sum.splits)

lemma part_neq: "dest @ str ''.part'' \<noteq> dest"
  by (simp add: str_def)

text \<open>
  \<open>download_image\<close> of books_data_images.py writes to \<open>dest + ".part"\<close> and renames:
  after a call the final path is as before or holds the whole body of a response whose
  stream did not break, and it is as before whenever the empty path is returned.
\<close>

lemma download_image_atomic:
  assumes "download_image w image_url category upc title referer_url \<sigma> = (p, \<sigma>')"
  shows "(p = [] \<longrightarrow> files \<sigma>' (dest_bdi category upc title) = files \<sigma> (dest_bdi category upc title)) \<and>
         (files \<sigma>' (dest_bdi category upc title) = files \<sigma> (dest_bdi category upc title) \<or>
          (\<exists>r. w (sent \<sigma>) (image_url, Some referer_url) = Response r \<and> \<not> stream_breaks r \<and>
               files \<sigma>' (dest_bdi category upc title) = Some (concat (chunks r))))"
proof (cases "image_url = []")
  case True
  with assms show ?thesis by (simp add: download_image_def)
next
  case False
  have ne: "dest_bdi category upc title \<noteq> []"
    by (simp add: dest_bdi_def path_join_def str_def)
  show ?thesis
    using assms ne part_neq[of "dest_bdi category upc title"]
    unfolding download_image_dest[OF False]
    by (auto simp: Let_def http_get_def write_stream_def os_replace_def
        split: if_splits outcome.splits sum.splits)
qed

text \<open>
  Claim C6, as amended.  Called with a non-empty image URL when a non-empty file is at the
  destination path (any file, for images_book_data.py), the Asset Fetcher sends no
  request and returns that path, the state unchanged.  Called twice with the same
  arguments, the destination absent at first and the first download answered with a
  success status, an unbroken stream and (for books_data_images.py) a non-empty body, it
  sends exactly one request: the second call changes nothing and returns the same path.
\<close>

theorem asset_fetcher_idempotent:
  "(image_url \<noteq> [] \<and> files \<sigma> (dest_bdi category upc title) = Some b \<and> b \<noteq> [] \<longrightarrow>
      download_image w image_url category upc title referer_url \<sigma> =
        (dest_bdi category upc title, \<sigma>)) \<and>
   (image_url \<noteq> [] \<and> files \<sigma> (dest_path_ibd L image_url category upc title) \<noteq> None \<longrightarrow>
      save_image_ibd L w image_url category upc title referer \<sigma> =
        (Inr (dest_path_ibd L image_url category upc title), \<sigma>)) \<and>
   (image_url \<noteq> [] \<and> files \<sigma> (dest_bdi category upc title) = None \<and>
    w (sent \<sigma>) (image_url, Some referer_url) = Response r \<and> status_code r < 400 \<and>
    \<not> stream_breaks r \<and> concat (chunks r) \<noteq> [] \<longrightarrow>
      (case download_image w image_url category upc title referer_url \<sigma> of
         (p1, \<sigma>1) \<Rightarrow>
           (case download_image w image_url category upc title referer_url \<sigma>1 of
              (p2, \<sigma>2) \<Rightarrow>
                p1 = dest_bdi category upc title \<and> p2 = dest_bdi category upc title \<and>
                sent \<sigma>1 = sent \<sigma> @ [(image_url, Some referer_url)] \<and> \<sigma>2 = \<sigma>1))) \<and>
   (image_url \<noteq> [] \<and> files \<sigma> (dest_path_ibd L image_url category upc title) = None \<and>
    w (sent \<sigma>) (image_url, None) = Response r \<and> status_code r < 400 \<and> \<not> stream_breaks r \<longrightarrow>
      (case save_image_ibd L w image_url category upc title referer \<sigma> of
         (p1, \<sigma>1) \<Rightarrow>
           (case save_image_ibd L w image_url category upc title referer \<sigma>1 of
              (p2, \<sigma>2) \<Rightarrow>
                p1 = Inr (dest_path_ibd L image_url category upc title) \<and> p2 = p1 \<and>
                sent \<sigma>1 = sent \<sigma> @ [(image_url, None)] \<and> \<sigma>2 = \<sigma>1)))"
proof (intro conjI impI)
  assume "image_url \<noteq> [] \<and> files \<sigma> (dest_bdi category upc title) = Some b \<and> b \<noteq> []"
  then show "download_image w image_url category upc title referer_url \<sigma> =
        (dest_bdi category upc title, \<sigma>)"
    by (simp add: download_image_dest)
next
  assume "image_url \<noteq> [] \<and> files \<sigma> (dest_path_ibd L image_url category upc title) \<noteq> None"
  then show "save_image_ibd L w image_url category upc title referer \<sigma> =
        (Inr (dest_path_ibd L image_url category upc title), \<sigma>)"
    by (auto simp: save_image_ibd_dest)
next
  assume a: "image_url \<noteq> [] \<and> files \<sigma> (dest_bdi category upc title) = None \<and>
    w (sent \<sigma>) (image_url, Some referer_url) = Response r \<and> status_code r < 400 \<and>
    \<not> stream_breaks r \<and> concat (chunks r) \<noteq> []"
  let ?d = "dest_bdi category upc title"
  let ?\<sigma>1 = "os_replace (?d @ str ''.part'') ?d
       (snd (write_stream (?d @ str ''.part'') r (\<sigma>\<lparr>sent := sent \<sigma> @ [(image_url, Some referer_url)]\<rparr>)))"
  have first: "download_image w image_url category upc title referer_url \<sigma> = (?d, ?\<sigma>1)"
    using a by (simp add: download_image_dest http_get_def raise_for_status_def write_stream_def Let_def)
  have f: "files ?\<sigma>1 ?d = Some (concat (chunks r))"
    using part_neq[of ?d] by (simp add: os_replace_def write_stream_def)
  have nz: "0 < length (concat (chunks r))"
    using a by auto
  have ne: "image_url \<noteq> []" using a by simp
  have second: "download_image w image_url category upc title referer_url ?\<sigma>1 = (?d, ?\<sigma>1)"
    unfolding download_image_dest[OF ne] Let_def f using nz by simp
  have s: "sent ?\<sigma>1 = sent \<sigma> @ [(image_url, Some referer_url)]"
    by (simp add: os_replace_def write_stream_def)
  show "case download_image w image_url category upc title referer_url \<sigma> of
         (p1, \<sigma>1) \<Rightarrow>
           (case download_image w image_url category upc title referer_url \<sigma>1 of
              (p2, \<sigma>2) \<Rightarrow>
                p1 = dest_bdi category upc title \<and> p2 = dest_bdi category upc title \<and>
                sent \<sigma>1 = sent \<sigma> @ [(image_url, Some referer_url)] \<and> \<sigma>2 = \<sigma>1)"
    unfolding first prod.case second using s by simp
next
  assume a: "image_url \<noteq> [] \<and> files \<sigma> (dest_path_ibd L image_url category upc title) = None \<and>
    w (sent \<sigma>) (image_url, None) = Response r \<and> status_code r < 400 \<and> \<not> stream_breaks r"
  let ?d = "dest_path_ibd L image_url category upc title"
  let ?\<sigma>1 = "snd (write_stream ?d r (\<sigma>\<lparr>sent := sent \<sigma> @ [(image_url, None)]\<rparr>))"
  have first: "save_image_ibd L w image_url category upc title referer \<sigma> = (Inr ?d, ?\<sigma>1)"
    using a by (simp add: save_image_ibd_dest http_get_def raise_for_status_def write_stream_def Let_def)
  have f: "files ?\<sigma>1 ?d \<noteq> None"
    by (simp add: write_stream_def)
  have ne: "image_url \<noteq> []" using a by simp
  have second: "save_image_ibd L w image_url category upc title referer ?\<sigma>1 = (Inr ?d, ?\<sigma>1)"
    unfolding save_image_ibd_dest[OF ne] Let_def using f by simp
  have s: "sent ?\<sigma>1 = sent \<sigma> @ [(image_url, None)]"
    by (simp add: write_stream_def)
  show "case save_image_ibd L w image_url category upc title referer \<sigma> of
         (p1, \<sigma>1) \<Rightarrow>
           (case save_image_ibd L w image_url category upc title referer \<sigma>1 of
              (p2, \<sigma>2) \<Rightarrow>
                p1 = Inr (dest_path_ibd L image_url category upc title) \<and> p2 = p1 \<and>
                sent \<sigma>1 = sent \<sigma> @ [(image_url, None)] \<and> \<sigma>2 = \<sigma>1)"
    unfolding first prod.case second using s by simp
qed

lemmas image_defs = image_reply_def image_web_def breaking_web_def html_web_def cover_jpg_def
  poetry_jpg_def stocked_def

lemma dest_poetry:
  "dest_bdi (str ''Poetry'') (str ''a897'') (str ''T'') = poetry_jpg"
  "dest_path_ibd ascii_lib cover_jpg (str ''Poetry'') (str ''a897'') (str ''T'') = poetry_jpg"
  by (simp_all add: dest_examples poetry_jpg_def)

lemma cover_jpg_nonempty: "cover_jpg \<noteq> []"
  by (simp add: cover_jpg_def str_def)

theorem asset_fetcher_idempotent_witness:
  "download_image image_web cover_jpg (str ''Poetry'') (str ''a897'') (str ''T'') (str ''ref'') stocked
     = (poetry_jpg, stocked) \<and>
   save_image_ibd ascii_lib image_web cover_jpg (str ''Poetry'') (str ''a897'') (str ''T'') None stocked
     = (Inr poetry_jpg, stocked) \<and>
   (case download_image image_web cover_jpg (str ''Poetry'') (str ''a897'') (str ''T'') (str ''ref'') fresh of
      (p1, \<sigma>1) \<Rightarrow>
        (case download_image image_web cover_jpg (str ''Poetry'') (str ''a897'') (str ''T'') (str ''ref'') \<sigma>1 of
           (p2, \<sigma>2) \<Rightarrow>
             p1 = poetry_jpg \<and> p2 = poetry_jpg \<and> sent \<sigma>1 = [(cover_jpg, Some (str ''ref''))] \<and>
             \<sigma>2 = \<sigma>1)) \<and>
   (case save_image_ibd ascii_lib image_web cover_jpg (str ''Poetry'') (str ''a897'') (str ''T'') None fresh of
      (p1, \<sigma>1) \<Rightarrow>
        (case save_image_ibd ascii_lib image_web cover_jpg (str ''Poetry'') (str ''a897'') (str ''T'') None \<sigma>1 of
           (p2, \<sigma>2) \<Rightarrow>
             p1 = Inr poetry_jpg \<and> p2 = p1 \<and> sent \<sigma>1 = [(cover_jpg, None)] \<and> \<sigma>2 = \<sigma>1))"
proof -
  let ?r = "\<lparr>status_code = 200, content_type = Some (str ''image/jpeg''), parsed = blank_page,
             chunks = [''JP'', ''EG''], stream_breaks = False\<rparr>"
  have h1: "cover_jpg \<noteq> [] \<and> files stocked (dest_bdi (str ''Poetry'') (str ''a897'') (str ''T'')) = Some ''JPEG'' \<and> ''JPEG'' \<noteq> []"
    by (simp add: cover_jpg_nonempty dest_poetry stocked_def)
  have h2: "cover_jpg \<noteq> [] \<and> files stocked (dest_path_ibd ascii_lib cover_jpg (str ''Poetry'') (str ''a897'') (str ''T'')) \<noteq> None"
    by (simp add: cover_jpg_nonempty dest_poetry stocked_def)
  have h3: "cover_jpg \<noteq> [] \<and> files fresh (dest_bdi (str ''Poetry'') (str ''a897'') (str ''T'')) = None \<and>
    image_web (sent fresh) (cover_jpg, Some (str ''ref'')) = Response ?r \<and> status_code ?r < 400 \<and>
    \<not> stream_breaks ?r \<and> concat (chunks ?r) \<noteq> []"
    by (simp add: cover_jpg_nonempty fresh_def image_web_def image_reply_def)
  have h4: "cover_jpg \<noteq> [] \<and> files fresh (dest_path_ibd ascii_lib cover_jpg (str ''Poetry'') (str ''a897'') (str ''T'')) = None \<and>
    image_web (sent fresh) (cover_jpg, None) = Response ?r \<and> status_code ?r < 400 \<and> \<not> stream_breaks ?r"
    by (simp add: cover_jpg_nonempty fresh_def image_web_def image_reply_def)
  note t = asset_fetcher_idempotent
  show ?thesis
    using t[where image_url = cover_jpg and \<sigma> = stocked and category = "str ''Poetry''"
              and upc = "str ''a897''" and title = "str ''T''" and b = "''JPEG''" and w = image_web
              and referer_url = "str ''ref''" and L = ascii_lib and referer = None and r = ?r]
          t[where image_url = cover_jpg and \<sigma> = fresh and category = "str ''Poetry''"
              and upc = "str ''a897''" and title = "str ''T''" and b = "''JPEG''" and w = image_web
              and referer_url = "str ''ref''" and L = ascii_lib and referer = None and r = ?r]
          h1 h2 h3 h4
    by (simp add: dest_poetry fresh_def)
qed

text \<open>
  Two calls with the same arguments on a web that does not answer send two requests:
  a failed download is tried again.
\<close>

theorem download_image_twice_counterexample:
  "sent (snd (download_image (\<lambda>_ _. NoResponse) cover_jpg (str ''Poetry'') (str ''a897'') (str ''T'') (str ''ref'')
          (snd (download_image (\<lambda>_ _. NoResponse) cover_jpg (str ''Poetry'') (str ''a897'') (str ''T'') (str ''ref'')
                  fresh))))
     = [(cover_jpg, Some (str ''ref'')), (cover_jpg, Some (str ''ref''))]"
  by (simp add: download_image_dest cover_jpg_nonempty dest_poetry fresh_def http_get_def Let_def)

text \<open>
  Claim C7.  The body is written to a temporary path and renamed on success, so that no
  partial file is at the final path, and a failure leaves no partial file and returns
  the empty path.  \<open>save_image\<close> of images_book_data.py opens the final path itself:
  when the stream breaks after the first chunk, the call raises, the first chunk is the
  file at the final path, and the next call returns that file as the image.
\<close>

theorem save_image_ibd_leaves_partial_file:
  "save_image_ibd ascii_lib breaking_web cover_jpg (str ''Poetry'') (str ''a897'') (str ''T'')
     (Some (str ''ref'')) fresh
     = (Inl StreamError, \<lparr>sent = [(cover_jpg, None)], files = [poetry_jpg \<mapsto> ''JP'']\<rparr>) \<and>
   save_image_ibd ascii_lib breaking_web cover_jpg (str ''Poetry'') (str ''a897'') (str ''T'')
     (Some (str ''ref'')) \<lparr>sent = [(cover_jpg, None)], files = [poetry_jpg \<mapsto> ''JP'']\<rparr>
     = (Inr poetry_jpg, \<lparr>sent = [(cover_jpg, None)], files = [poetry_jpg \<mapsto> ''JP'']\<rparr>)"
  by (simp add: save_image_ibd_dest cover_jpg_nonempty dest_poetry fresh_def http_get_def Let_def
      breaking_web_def image_reply_def raise_for_status_def write_stream_def)

text \<open>
  \<open>download_image\<close> of books_data_images.py does not look at the content type: a web page
  answered with status 200 is stored as the image.  When the stream breaks, it returns
  the empty path and leaves the final path alone, but the temporary file stays on disk.
\<close>

lemma download_image_stores_non_image:
  "download_image html_web cover_jpg (str ''Poetry'') (str ''a897'') (str ''T'') (str ''ref'') fresh
     = (poetry_jpg, \<lparr>sent = [(cover_jpg, Some (str ''ref''))], files = [poetry_jpg \<mapsto> ''<html>'']\<rparr>)"
  using part_neq[of poetry_jpg]
  by (simp add: download_image_dest cover_jpg_nonempty dest_poetry fresh_def http_get_def Let_def
      html_web_def image_reply_def raise_for_status_def write_stream_def os_replace_def fun_upd_twist)

lemma download_image_broken_stream:
  "download_image breaking_web cover_jpg (str ''Poetry'') (str ''a897'') (str ''T'') (str ''ref'') fresh
     = ([], \<lparr>sent = [(cover_jpg, Some (str ''ref''))], files = [poetry_jpg @ str ''.part'' \<mapsto> ''JP'']\<rparr>)"
  by (simp add: download_image_dest cover_jpg_nonempty dest_poetry fresh_def http_get_def Let_def
      breaking_web_def image_reply_def raise_for_status_def write_stream_def)

section \<open>The page budget\<close>

text \<open>A product visit of all_books_data.py sends one request and writes no file.\<close>

lemma sent_visit_book_abd:
  "sent (snd (visit_book_abd w u st)) = sent (snd st) @ [(u, None)]"
  by (simp add: visit_book_abd_def scrape_book_abd_def get_soup_unchecked_def http_get_def
      split: prod.splits sum.splits outcome.splits)

lemma files_visit_book_abd:
  "files (snd (visit_book_abd w u st)) = files (snd st)"
  by (simp add: visit_book_abd_def scrape_book_abd_def get_soup_unchecked_def http_get_def
      split: prod.splits sum.splits outcome.splits)

lemma sent_fold_visit_book_abd:
  "sent (snd (fold (visit_book_abd w) us st)) = sent (snd st) @ map (\<lambda>u. (u, None)) us"
  by (induction us arbitrary: st) (simp_all add: sent_visit_book_abd)

lemma files_fold_visit_book_abd:
  "files (snd (fold (visit_book_abd w) us st)) = files (snd st)"
  by (induction us arbitrary: st) (simp_all add: files_visit_book_abd)

text \<open>
  With a budget of 1, \<open>scrape_all_books\<close> of images_book_data.py always returns, with the
  groups and the state reached after the last product of the first page: the budget is
  tested right after the products, before any request for the pager.
\<close>

lemma scrape_all_books_ibd_budget_one:
  assumes "start_url \<noteq> []"
  shows "scrape_all_books_ibd L w start_url (Some 1) \<sigma> =
           Some (fold (visit_book_ibd L w)
                   (case fst (get_book_urls_from_page_ibd L w start_url \<sigma>) of
                      Inl e \<Rightarrow> []
                    | Inr book_urls \<Rightarrow> book_urls)
                   ([], snd (get_book_urls_from_page_ibd L w start_url \<sigma>)))"
  unfolding scrape_all_books_ibd_def
  apply (subst scrape_all_books_loop_ibd.simps)
  using assms apply (simp add: case_prod_beta split: sum.splits prod.splits)
  done

text \<open>
  \<open>scrape_all_books\<close> of all_books_data.py tests the budget at the head of the next
  round, after it has requested the listing a second time to read the pager.  When that
  second request is answered and shows a next-page link, the crawl returns the groups
  of the products of the first page, and the requests sent are the listing, each of its
  products, and the listing again; the next page is not requested.
\<close>

lemma scrape_all_books_abd_budget_one:
  assumes start: "start_url \<noteq> []"
    and page: "w (sent \<sigma>) (start_url, None) = Response r"
    and links: "for_each (book_link_abd L start_url) (product_pods (parsed r)) [] = Inr book_urls"
    and again: "w (sent \<sigma> @ (start_url, None) # map (\<lambda>u. (u, None)) book_urls) (start_url, None)
                  = Response r2"
    and pager: "pager_next (parsed r2) = Some (Some (Some href))"
  shows "scrape_all_books_abd L w start_url (Some 1) \<sigma> =
           Some (Inr (fst (fold (visit_book_abd w) book_urls
                            ([], \<sigma>\<lparr>sent := sent \<sigma> @ [(start_url, None)]\<rparr>))),
                 \<sigma>\<lparr>sent := sent \<sigma> @ (start_url, None) # map (\<lambda>u. (u, None)) book_urls @
                                  [(start_url, None)]\<rparr>)"
proof -
  let ?\<sigma>1 = "\<sigma>\<lparr>sent := sent \<sigma> @ [(start_url, None)]\<rparr>"
  let ?st = "fold (visit_book_abd w) book_urls ([], ?\<sigma>1)"
  have l: "get_book_urls_from_page_abd L w start_url \<sigma> = (Inr book_urls, ?\<sigma>1)"
    using page links by (simp add: get_book_urls_from_page_abd_def get_soup_unchecked_def http_get_def)
  have s: "sent (snd ?st) = sent \<sigma> @ (start_url, None) # map (\<lambda>u. (u, None)) book_urls"
    using sent_fold_visit_book_abd[of w book_urls "([], ?\<sigma>1)"] by simp
  have n: "get_next_page_url_abd L w start_url (snd ?st) =
             (Inr (Some (urljoin L start_url href)), (snd ?st)\<lparr>sent := sent (snd ?st) @ [(start_url, None)]\<rparr>)"
    using again pager by (simp add: get_next_page_url_abd_def get_soup_unchecked_def http_get_def s)
  have stop: "scrape_all_books_loop_abd L w (Some 1) (Some u) 2 g \<tau> = Some (Inr g, \<tau>)" for u g \<tau>
    by (subst scrape_all_books_loop_abd.simps) simp
  have fin: "(snd ?st)\<lparr>sent := sent (snd ?st) @ [(start_url, None)]\<rparr> =
             \<sigma>\<lparr>sent := sent \<sigma> @ (start_url, None) # map (\<lambda>u. (u, None)) book_urls @ [(start_url, None)]\<rparr>"
    using s files_fold_visit_book_abd[of w book_urls "([], ?\<sigma>1)"]
    by (cases "snd ?st") simp
  show ?thesis
    unfolding scrape_all_books_abd_def
    apply (subst scrape_all_books_loop_abd.simps)
    using start apply (simp add: l case_prod_beta n stop fin)
    done
qed

lemma scrape_all_books_abd_paged_shop:
  "scrape_all_books_abd ascii_lib paged_shop (str ''list'') (Some 1) fresh =
     Some (Inr [(str ''Poetry'', [poetry_abd])],
           \<lparr>sent = [(str ''list'', None), (str ''bad'', None), (str ''good'', None),
                    (str ''list'', None)], files = Map.empty\<rparr>)"
  unfolding scrape_all_books_abd_def
  apply (subst scrape_all_books_loop_abd.simps)
  apply (simp add: listing_defs http_defs page_defs paged_shop_def paged_listing_def
      listing_page_def str_defs extract_defs Let_def visit_book_abd_def poetry_page_def
      ascii_lib_def por_def poetry_abd_def)
  apply (subst scrape_all_books_loop_abd.simps)
  apply simp
  done

text \<open>
  Claim C2.  A crawl with a page budget of 1, on a listing whose first page has a
  next-page link, must return the records of that page.  In all_books_data.py the
  request for the pager comes before the budget test and outside any \<open>try\<close>: on
  \<open>flaky_shop\<close>, where the listing is served with its two products and its next-page link
  and the second request of the listing gets no response, the crawl ends with the
  exception and returns no group, the record of \<open>good\<close> is lost.
\<close>

theorem scrape_all_books_abd_budget_one_raises:
  "scrape_all_books_abd ascii_lib flaky_shop (str ''list'') (Some 1) fresh =
     Some (Inl ConnectionError,
           \<lparr>sent = [(str ''list'', None), (str ''bad'', None), (str ''good'', None),
                    (str ''list'', None)], files = Map.empty\<rparr>)"
  unfolding scrape_all_books_abd_def
  apply (subst scrape_all_books_loop_abd.simps)
  apply (simp add: listing_defs http_defs page_defs flaky_shop_def paged_listing_def
      listing_page_def str_defs extract_defs Let_def visit_book_abd_def poetry_page_def
      ascii_lib_def por_def poetry_abd_def)
  done

text \<open>
  On the same web \<open>scrape_all_books\<close> of images_book_data.py returns the record of the
  first page and sends no second request of the listing.
\<close>

lemma scrape_all_books_ibd_flaky_shop:
  "scrape_all_books_ibd ascii_lib flaky_shop (str ''list'') (Some 1) fresh =
     Some ([(str ''Poetry'', [poetry_ibd])],
           \<lparr>sent = [(str ''list'', None), (str ''bad'', None), (str ''good'', None)],
            files = Map.empty\<rparr>)"
  unfolding scrape_all_books_ibd_def
  apply (subst scrape_all_books_loop_ibd.simps)
  apply (simp add: listing_defs http_defs page_defs flaky_shop_def paged_listing_def
      listing_page_def str_defs Let_def visit_book_ibd_def scrape_book_ibd_def book_dict_def
      table_row_ibd_def category_of_links_def empty_fields_def dict_get_def poetry_page_def
      ascii_lib_def por_def poetry_ibd_def)
  done

section \<open>The Exporter\<close>

lemma map_of_dict_set: "map_of (dict_set d k v) = (map_of d)(k \<mapsto> v)"
  by (induction d) (auto simp: fun_eq_iff)

lemma dict_get_dict_set:
  "dict_get (dict_set d k v) k' dflt = (if k' = k then v else dict_get d k' dflt)"
  by (simp add: dict_get_def map_of_dict_set)

lemma dict_get_absent: "k \<notin> fst ` set d \<Longrightarrow> dict_get d k dflt = dflt"
  by (simp add: dict_get_def map_of_eq_None_iff[THEN iffD2])

lemma keys_dict_set: "fst ` set (dict_set d k v) = insert k (fst ` set d)"
  using dom_map_of_conv_image_fst[of "dict_set d k v"] dom_map_of_conv_image_fst[of d]
  by (simp add: map_of_dict_set)

lemma set_fold_add_key: "set (fold add_key ks acc) = set acc \<union> set ks"
  by (induction ks arbitrary: acc) (auto simp: add_key_def)

lemma set_columns_DataFrame_aux:
  "set (fold (\<lambda>r cs. fold add_key (map fst r) cs) rows acc) = set acc \<union> (\<Union>r\<in>set rows. fst ` set r)"
  by (induction rows arbitrary: acc) (auto simp: set_fold_add_key)

lemma covered_iff:
  "covered df \<longleftrightarrow> (\<forall>r\<in>set (df_rows df). fst ` set r \<subseteq> set (df_columns df))"
  by (auto simp: covered_def list_all_iff)

lemma covered_DataFrame: "covered (DataFrame rows)"
  unfolding covered_iff by (auto simp: DataFrame_def set_columns_DataFrame_aux)

lemma check_column_step:
  assumes "covered df"
  shows "covered (check_column c df)"
    and "set (df_columns (check_column c df)) = insert c (set (df_columns df))"
    and "map (\<lambda>r. map (\<lambda>k. dict_get r k []) ks) (df_rows (check_column c df)) =
         map (\<lambda>r. map (\<lambda>k. dict_get r k []) ks) (df_rows df)"
proof -
  show "covered (check_column c df)"
  proof (cases "c \<in> set (df_columns df)")
    case True
    with assms show ?thesis by (simp add: check_column_def)
  next
    case False
    have "fst ` set (dict_set r c []) \<subseteq> insert c (set (df_columns df))"
      if "r \<in> set (df_rows df)" for r
      using assms that unfolding covered_iff keys_dict_set by blast
    with False show ?thesis
      by (simp add: covered_iff check_column_def set_column_def add_key_def)
  qed
  show "set (df_columns (check_column c df)) = insert c (set (df_columns df))"
    by (auto simp: check_column_def set_column_def add_key_def)
  have "dict_get (dict_set r c []) k [] = dict_get r k []"
    if "r \<in> set (df_rows df)" "c \<notin> set (df_columns df)" for r k
  proof -
    have "c \<notin> fst ` set r" using assms that unfolding covered_iff by blast
    then show ?thesis by (simp add: dict_get_dict_set dict_get_absent)
  qed
  then show "map (\<lambda>r. map (\<lambda>k. dict_get r k []) ks) (df_rows (check_column c df)) =
         map (\<lambda>r. map (\<lambda>k. dict_get r k []) ks) (df_rows df)"
    by (simp add: check_column_def set_column_def)
qed

lemma fold_check_column:
  assumes "covered df"
  shows "covered (fold check_column cs df) \<and>
         set (df_columns (fold check_column cs df)) = set cs \<union> set (df_columns df) \<and>
         map (\<lambda>r. map (\<lambda>k. dict_get r k []) ks) (df_rows (fold check_column cs df)) =
         map (\<lambda>r. map (\<lambda>k. dict_get r k []) ks) (df_rows df)"
  using assms
proof (induction cs arbitrary: df)
  case Nil
  then show ?case by simp
next
  case (Cons c cs)
  from Cons.IH[OF check_column_step(1)[OF Cons.prems, where c = c] ]
       check_column_step(2,3)[OF Cons.prems, where c = c]
  show ?case by auto
qed

lemma write_csv_bdi_eq:
  "write_csv_bdi (cat, rows) written =
     Inr (written @ [(path_join OUTPUT_DIR (cleaner (Some cat) @ str ''.csv''),
                      (cols, map (\<lambda>r. map (\<lambda>c. dict_get r c []) cols) rows))])"
proof -
  let ?df = "fold check_column cols (DataFrame rows)"
  note f = fold_check_column[OF covered_DataFrame[of rows], where cs = cols and ks = cols]
  have sel: "select_columns cols ?df = Inr (?df\<lparr>df_columns := cols\<rparr>)"
    using f by (auto simp: select_columns_def list_all_iff)
  have rows: "df_rows (DataFrame rows) = rows" by (simp add: DataFrame_def)
  show ?thesis
    using f by (simp add: write_csv_bdi_def sel to_csv_def rows)
qed

lemma for_each_write_csv_bdi:
  "for_each write_csv_bdi g written =
     Inr (written @ map (\<lambda>(cat, rows). (path_join OUTPUT_DIR (cleaner (Some cat) @ str ''.csv''),
                      (cols, map (\<lambda>r. map (\<lambda>c. dict_get r c []) cols) rows))) g)"
proof (induction g arbitrary: written)
  case Nil
  then show ?case by simp
next
  case (Cons e g)
  obtain cat rows where e: "e = (cat, rows)" by (cases e)
  show ?case by (simp add: e write_csv_bdi_eq Cons.IH)
qed

text \<open>
  Claim C9, as amended.  For every group handed to \<open>write_csvs\<close> of
  books_data_images.py, the file of each category has exactly the columns \<open>title\<close>,
  \<open>upc\<close>, \<open>price_incl_tax_gbp\<close>, \<open>price_excl_tax_gbp\<close>, \<open>availability\<close>,
  \<open>description\<close>, \<open>category\<close>, \<open>product_page_url\<close>, \<open>image_url\<close>, \<open>image_path\<close>, in
  this order, and one line per record, whose field for a column is the value of the
  record under that key, and the empty value when the record has no such key; so a
  column that no record of the group has is still written, empty in every line.
\<close>

theorem write_csvs_columns:
  "write_csvs data_by_cat =
     Inr (map (\<lambda>(cat, rows).
                 (path_join OUTPUT_DIR (cleaner (Some cat) @ str ''.csv''),
                  (cols, map (\<lambda>r. map (\<lambda>c. dict_get r c []) cols) rows)))
            data_by_cat) \<and>
   (c \<notin> fst ` set r \<longrightarrow> dict_get r c [] = ([] :: pystr))"
  using for_each_write_csv_bdi[of data_by_cat "[]"]
  by (simp add: write_csvs_def dict_get_absent)

theorem write_csvs_columns_witness:
  "write_csvs [(str ''Poetry'', [poetry_bdi])] =
     Inr [(str ''books_csv/Poetry.csv'',
           (cols, [ [str ''Shakespeare's Sonnets'', [], [], [], [], [], str ''Poetry'', str ''good'',
                    [], [] ]]))] \<and>
   ''image_path'' \<notin> fst ` set poetry_bdi \<and> dict_get poetry_bdi ''image_path'' [] = []"
proof -
  note t = write_csvs_columns[of "[(str ''Poetry'', [poetry_bdi])]" "''image_path''" poetry_bdi]
  have p: "path_join OUTPUT_DIR (cleaner (Some (str ''Poetry'')) @ str ''.csv'') = str ''books_csv/Poetry.csv''"
    by (simp add: path_defs str_def)
  have l: "map (\<lambda>c. dict_get poetry_bdi c []) cols =
             [str ''Shakespeare's Sonnets'', [], [], [], [], [], str ''Poetry'', str ''good'', [], [] ]"
    by (simp add: poetry_bdi_def cols_def dict_get_def)
  have a: "''image_path'' \<notin> fst ` set poetry_bdi"
    by (simp add: poetry_bdi_def)
  have 1: "write_csvs [(str ''Poetry'', [poetry_bdi])] =
     Inr [(str ''books_csv/Poetry.csv'',
           (cols, [ [str ''Shakespeare's Sonnets'', [], [], [], [], [], str ''Poetry'', str ''good'',
                    [], [] ]]))]"
    unfolding t[THEN conjunct1] by (simp add: p l)
  have 2: "dict_get poetry_bdi ''image_path'' [] = []"
    using t[THEN conjunct2] a by (rule mp)
  from 1 2 a show ?thesis by (intro conjI)
qed

text \<open>
  The price columns of \<open>write_csvs\<close> are named \<open>price_incl_tax_gbp\<close> and
  \<open>price_excl_tax_gbp\<close>, and the export of all_books_data.py writes the eight keys of its
  records, with no image column: neither is the column list of the specification.
\<close>

theorem exported_columns_counterexample:
  "write_csvs [(str ''Poetry'', [poetry_ibd])] =
     Inr [(str ''books_csv/Poetry.csv'',
           ([''title'', ''upc'', ''price_incl_tax_gbp'', ''price_excl_tax_gbp'', ''availability'',
             ''description'', ''category'', ''product_page_url'', ''image_url'', ''image_path''],
            [ [str ''Shakespeare's Sonnets'', [], [], [], [], [], str ''Poetry'', str ''good'',
              [], [] ]]))] \<and>
   save_groups_abd [(str ''Poetry'', [poetry_abd])] =
     [(str ''books_csv/Poetry.csv'',
       ([''title'', ''upc'', ''price_with_tax'', ''price_without_tax'', ''availability'',
         ''description'', ''category'', ''product_url''],
        [ [str ''Shakespeare's Sonnets'', [], [], [], [], str ''Pas de description'',
          str ''Poetry'', str ''good''] ]))] \<and>
   cols \<noteq> spec_columns"
proof -
  have p: "path_join OUTPUT_DIR (cleaner (Some (str ''Poetry'')) @ str ''.csv'') = str ''books_csv/Poetry.csv''"
    by (simp add: path_defs str_def)
  have l: "map (\<lambda>c. dict_get poetry_ibd c []) cols =
             [str ''Shakespeare's Sonnets'', [], [], [], [], [], str ''Poetry'', str ''good'', [], [] ]"
    by (simp add: poetry_ibd_def cols_def dict_get_def)
  have 1: "write_csvs [(str ''Poetry'', [poetry_ibd])] =
     Inr [(str ''books_csv/Poetry.csv'',
           ([''title'', ''upc'', ''price_incl_tax_gbp'', ''price_excl_tax_gbp'', ''availability'',
             ''description'', ''category'', ''product_page_url'', ''image_url'', ''image_path''],
            [ [str ''Shakespeare's Sonnets'', [], [], [], [], [], str ''Poetry'', str ''good'',
              [], [] ]]))]"
    by (simp add: write_csvs_def write_csv_bdi_eq p l) (simp add: cols_def)
  have q: "path_join OUTPUT_DIR
             (por (strip (replace (replace (str ''Poetry'') [47] [45]) [92] [45])) (str ''Unknown'') @
              str ''.csv'') = str ''books_csv/Poetry.csv''"
    by (simp add: path_defs str_defs)
  have c: "df_columns (DataFrame [poetry_abd]) =
             [''title'', ''upc'', ''price_with_tax'', ''price_without_tax'', ''availability'',
              ''description'', ''category'', ''product_url'']"
    by (simp add: DataFrame_def poetry_abd_def add_key_def)
  have 2: "save_groups_abd [(str ''Poetry'', [poetry_abd])] =
     [(str ''books_csv/Poetry.csv'',
       ([''title'', ''upc'', ''price_with_tax'', ''price_without_tax'', ''availability'',
         ''description'', ''category'', ''product_url''],
        [ [str ''Shakespeare's Sonnets'', [], [], [], [], str ''Pas de description'',
          str ''Poetry'', str ''good''] ]))]"
    by (simp add: save_groups_abd_def save_group_abd_def q to_csv_def c Let_def)
       (simp add: DataFrame_def poetry_abd_def dict_get_def)
  have 3: "cols \<noteq> spec_columns"
    by (simp add: cols_def spec_columns_def)
  from 1 2 3 show ?thesis by (intro conjI)
qed

section \<open>Availability\<close>

lemma keys_distinct:
  "str ''Availability'' \<noteq> str ''UPC''"
  "str ''Availability'' \<noteq> str ''Price (incl. tax)''"
  "str ''Availability'' \<noteq> str ''Price (excl. tax)''"
  by (simp_all add: str_def)

lemma table_row_abd_availability:
  "\<exists>v'. table_row_abd [(TH, k), (TD, t)] v = Inr v' \<and>
        t_availability v' =
          (if strip k = str ''Availability''
           then (if 40 \<in> set (strip t)
                 then takeWhile (\<lambda>c. c \<noteq> 32)
                        (takeWhile (\<lambda>c. c \<noteq> 40) (tl (dropWhile (\<lambda>c. c \<noteq> 40) (strip t))))
                 else str ''0'')
           else t_availability v)"
  by (auto simp: table_row_abd_def Let_def count_in_parens_eq keys_distinct)

lemma for_each_table_row_abd_availability:
  "\<exists>v'. for_each table_row_abd (two_cell_rows kvs) v = Inr v' \<and>
        t_availability v' =
          (case last_value (str ''Availability'') kvs of
             None \<Rightarrow> t_availability v
           | Some val \<Rightarrow>
               if 40 \<in> set val
               then takeWhile (\<lambda>c. c \<noteq> 32) (takeWhile (\<lambda>c. c \<noteq> 40) (tl (dropWhile (\<lambda>c. c \<noteq> 40) val)))
               else str ''0'')"
proof (induction kvs arbitrary: v)
  case Nil
  then show ?case by (simp add: two_cell_rows_def)
next
  case (Cons kv kvs)
  obtain k t where kv: "kv = (k, t)" by (cases kv)
  obtain v1 where v1: "table_row_abd [(TH, k), (TD, t)] v = Inr v1"
    and a1: "t_availability v1 =
          (if strip k = str ''Availability''
           then (if 40 \<in> set (strip t)
                 then takeWhile (\<lambda>c. c \<noteq> 32)
                        (takeWhile (\<lambda>c. c \<noteq> 40) (tl (dropWhile (\<lambda>c. c \<noteq> 40) (strip t))))
                 else str ''0'')
           else t_availability v)"
    using table_row_abd_availability[of k t v] by blast
  obtain v' where v': "for_each table_row_abd (two_cell_rows kvs) v1 = Inr v'"
    and a': "t_availability v' =
          (case last_value (str ''Availability'') kvs of
             None \<Rightarrow> t_availability v1
           | Some val \<Rightarrow>
               if 40 \<in> set val
               then takeWhile (\<lambda>c. c \<noteq> 32) (takeWhile (\<lambda>c. c \<noteq> 40) (tl (dropWhile (\<lambda>c. c \<noteq> 40) val)))
               else str ''0'')"
    using Cons[of v1] by blast
  have "for_each table_row_abd (two_cell_rows (kv # kvs)) v = Inr v'"
    using v1 v' by (simp add: kv two_cell_rows_def)
  moreover have "t_availability v' =
          (case last_value (str ''Availability'') (kv # kvs) of
             None \<Rightarrow> t_availability v
           | Some val \<Rightarrow>
               if 40 \<in> set val
               then takeWhile (\<lambda>c. c \<noteq> 32) (takeWhile (\<lambda>c. c \<noteq> 40) (tl (dropWhile (\<lambda>c. c \<noteq> 40) val)))
               else str ''0'')"
    using a1 a' by (simp add: kv split: option.splits)
  ultimately show ?case by blast
qed

lemma table_row_ibd_availability:
  "t_availability (table_row_ibd L [(TH, k), (TD, t)] v) =
     (if strip k = str ''Availability''
      then (case search_decimal L (strip t) of Some m \<Rightarrow> m | None \<Rightarrow> str ''0'')
      else t_availability v)"
  by (simp add: table_row_ibd_def Let_def keys_distinct)

lemma fold_table_row_ibd_availability:
  "t_availability (fold (table_row_ibd L) (two_cell_rows kvs) v) =
     (case last_value (str ''Availability'') kvs of
        None \<Rightarrow> t_availability v
      | Some val \<Rightarrow> (case search_decimal L val of Some m \<Rightarrow> m | None \<Rightarrow> str ''0''))"
proof (induction kvs arbitrary: v)
  case Nil
  then show ?case by (simp add: two_cell_rows_def)
next
  case (Cons kv kvs)
  obtain k t where kv: "kv = (k, t)" by (cases kv)
  have "t_availability (fold (table_row_ibd L) (two_cell_rows (kv # kvs)) v) =
        t_availability (fold (table_row_ibd L) (two_cell_rows kvs) (table_row_ibd L [(TH, k), (TD, t)] v))"
    by (simp add: kv two_cell_rows_def)
  then show ?case
    by (simp add: Cons table_row_ibd_availability kv split: option.splits)
qed

lemma map_of_fold_specs_row:
  "map_of (fold specs_row (two_cell_rows kvs) d) key =
     (case last_value key kvs of None \<Rightarrow> map_of d key | Some val \<Rightarrow> Some val)"
proof (induction kvs arbitrary: d)
  case Nil
  then show ?case by (simp add: two_cell_rows_def)
next
  case (Cons kv kvs)
  obtain k t where kv: "kv = (k, t)" by (cases kv)
  have "fold specs_row (two_cell_rows (kv # kvs)) d =
        fold specs_row (two_cell_rows kvs) (dict_set d (strip k) (strip t))"
    by (simp add: kv two_cell_rows_def specs_row_def)
  then show ?case
    by (simp add: Cons map_of_dict_set kv split: option.splits)
qed

lemma book_dict_availability:
  "map_of (book_dict title v description category url image_url image_path) ''availability'' =
     Some (t_availability v)"
  by (simp add: book_dict_def)

lemma scrape_book_ibd_availability:
  assumes "get_soup w url \<sigma> = (Inr page, \<sigma>1)"
  shows "field (scrape_book_ibd L w url \<sigma>) ''availability'' =
           Some (t_availability
                   (case spec_table page of
                      None \<Rightarrow> empty_fields
                    | Some rows \<Rightarrow> fold (table_row_ibd L) rows empty_fields))"
  by (simp add: field_def scrape_book_ibd_def assms Let_def book_dict_availability
      split: option.splits prod.splits sum.splits)

text \<open>
  What the three scripts compute from the rows of the table.  Let \<open>val\<close> be the stripped
  value of the last row labelled \<open>Availability\<close>.  In all_books_data.py the field is the
  text between the first left parenthesis of \<open>val\<close> and the next space or parenthesis when
  \<open>val\<close> has a left parenthesis, and the string \<open>0\<close> otherwise; in images_book_data.py
  it is the first run of decimal digits of \<open>val\<close>, and the string \<open>0\<close> when there is
  none; in books_data_images.py it is \<open>val\<close> itself.  Without such a row the field is
  the empty string in all three.
\<close>

lemma availability_of_rows:
  assumes tbl: "spec_table page = Some (two_cell_rows kvs) \<or> spec_table page = None \<and> kvs = []"
  shows "key_of (book_of_soup_abd url page) ''availability'' =
           Some (case last_value (str ''Availability'') kvs of
                   None \<Rightarrow> []
                 | Some val \<Rightarrow>
                     if 40 \<in> set val
                     then takeWhile (\<lambda>c. c \<noteq> 32)
                            (takeWhile (\<lambda>c. c \<noteq> 40) (tl (dropWhile (\<lambda>c. c \<noteq> 40) val)))
                     else str ''0'') \<and>
         (w (sent \<sigma>) (url, None) = Response r \<and> status_code r < 400 \<and> parsed r = page \<longrightarrow>
            field (scrape_book_ibd L w url \<sigma>) ''availability'' =
              Some (case last_value (str ''Availability'') kvs of
                      None \<Rightarrow> []
                    | Some val \<Rightarrow>
                        (case search_decimal L val of Some m \<Rightarrow> m | None \<Rightarrow> str ''0''))) \<and>
         (h1 page \<noteq> None \<longrightarrow>
            key_of (book_of_soup_bdi L url page) ''availability'' =
              Some (case last_value (str ''Availability'') kvs of None \<Rightarrow> [] | Some val \<Rightarrow> val))"
proof (intro conjI impI)
  have e: "t_availability empty_fields = []" by (simp add: empty_fields_def)
  obtain v where v: "for_each table_row_abd (two_cell_rows kvs) empty_fields = Inr v"
    and a: "t_availability v =
          (case last_value (str ''Availability'') kvs of
             None \<Rightarrow> t_availability empty_fields
           | Some val \<Rightarrow>
               if 40 \<in> set val
               then takeWhile (\<lambda>c. c \<noteq> 32) (takeWhile (\<lambda>c. c \<noteq> 40) (tl (dropWhile (\<lambda>c. c \<noteq> 40) val)))
               else str ''0'')"
    using for_each_table_row_abd_availability[of kvs empty_fields] by blast
  have "(case spec_table page of
           None \<Rightarrow> Inr empty_fields
         | Some rows \<Rightarrow> for_each table_row_abd rows empty_fields) = Inr v"
    using tbl v by (auto simp: two_cell_rows_def)
  then show "key_of (book_of_soup_abd url page) ''availability'' =
           Some (case last_value (str ''Availability'') kvs of
                   None \<Rightarrow> []
                 | Some val \<Rightarrow>
                     if 40 \<in> set val
                     then takeWhile (\<lambda>c. c \<noteq> 32)
                            (takeWhile (\<lambda>c. c \<noteq> 40) (tl (dropWhile (\<lambda>c. c \<noteq> 40) val)))
                     else str ''0'')"
    using a by (simp add: key_of_def book_of_soup_abd_def Let_def e split: option.splits)
next
  assume h: "w (sent \<sigma>) (url, None) = Response r \<and> status_code r < 400 \<and> parsed r = page"
  have e: "t_availability empty_fields = []" by (simp add: empty_fields_def)
  have g: "get_soup w url \<sigma> = (Inr page, \<sigma>\<lparr>sent := sent \<sigma> @ [(url, None)]\<rparr>)"
    using h by (simp add: get_soup_def http_get_def raise_for_status_def)
  have f: "(case spec_table page of
              None \<Rightarrow> empty_fields
            | Some rows \<Rightarrow> fold (table_row_ibd L) rows empty_fields) =
           fold (table_row_ibd L) (two_cell_rows kvs) empty_fields"
    using tbl by (auto simp: two_cell_rows_def)
  show "field (scrape_book_ibd L w url \<sigma>) ''availability'' =
              Some (case last_value (str ''Availability'') kvs of
                      None \<Rightarrow> []
                    | Some val \<Rightarrow>
                        (case search_decimal L val of Some m \<Rightarrow> m | None \<Rightarrow> str ''0''))"
    unfolding scrape_book_ibd_availability[OF g] f
      fold_table_row_ibd_availability[of L kvs empty_fields] e ..
next
  assume h: "h1 page \<noteq> None"
  have f: "(case spec_table page of None \<Rightarrow> [] | Some rows \<Rightarrow> rows) = two_cell_rows kvs"
    using tbl by (auto simp: two_cell_rows_def)
  show "key_of (book_of_soup_bdi L url page) ''availability'' =
              Some (case last_value (str ''Availability'') kvs of None \<Rightarrow> [] | Some val \<Rightarrow> val)"
    using h map_of_fold_specs_row[of kvs "[]" "str ''Availability''"]
    by (auto simp: key_of_def book_of_soup_bdi_def f Let_def dict_get_def split: option.splits)
qed

lemma stock_page_table:
  "spec_table (stock_page val) =
     Some (two_cell_rows [(str ''UPC'', str ''a897fe39b1053632''), (str ''Availability'', val)])"
  "h1 (stock_page val) \<noteq> None"
  by (simp_all add: stock_page_def blank_page_def)

lemma price_page_table:
  "spec_table price_page =
     Some (two_cell_rows [(str ''UPC'', str ''a897fe39b1053632''),
                          (str ''Price (incl. tax)'', pound @ str ''51.77'')])"
  "h1 price_page \<noteq> None"
  by (simp_all add: price_page_def blank_page_def two_cell_rows_def)

text \<open>
  A value with a parenthesized count: an opening parenthesis, the digits of the count
  and a space, with no parenthesis and no digit before.  Both parsers find the count.
\<close>

lemma paren_count_abd:
  assumes n: "list_all ascii_digit n" and pre: "\<not> list_ex (\<lambda>c. c = 40 \<or> ascii_digit c) pre"
  shows "40 \<in> set (pre @ 40 # n @ 32 # rest) \<and>
         takeWhile (\<lambda>c. c \<noteq> 32)
           (takeWhile (\<lambda>c. c \<noteq> 40) (tl (dropWhile (\<lambda>c. c \<noteq> 40) (pre @ 40 # n @ 32 # rest)))) = n"
proof -
  have d: "dropWhile (\<lambda>c. c \<noteq> 40) (pre @ 40 # n @ 32 # rest) = 40 # n @ 32 # rest"
    using pre by (subst dropWhile_append2) (auto simp: list_ex_iff)
  have n40: "\<And>c. c \<in> set n \<Longrightarrow> c \<noteq> 40" and n32: "\<And>c. c \<in> set n \<Longrightarrow> c \<noteq> 32"
    using n by (auto simp: list_all_iff ascii_digit_def)
  have t: "takeWhile (\<lambda>c. c \<noteq> 40) (n @ 32 # rest) = n @ 32 # takeWhile (\<lambda>c. c \<noteq> 40) rest"
    using n40 by (subst takeWhile_append2) auto
  have "takeWhile (\<lambda>c. c \<noteq> 32) (n @ 32 # takeWhile (\<lambda>c. c \<noteq> 40) rest) = n"
    using n32 by (subst takeWhile_append2) auto
  then show ?thesis by (simp add: d t)
qed

lemma paren_count_ibd:
  assumes n: "list_all ascii_digit n" and ne: "n \<noteq> []"
    and pre: "\<not> list_ex (\<lambda>c. c = 40 \<or> ascii_digit c) pre"
    and dec: "list_all (\<lambda>c. decimal L c = ascii_digit c) (pre @ 40 # n @ 32 # rest)"
  shows "search_decimal L (pre @ 40 # n @ 32 # rest) = Some n"
proof -
  have p: "\<And>c. c \<in> set pre \<Longrightarrow> \<not> decimal L c"
    using pre dec by (auto simp: list_ex_iff list_all_iff)
  have nd: "\<And>c. c \<in> set n \<Longrightarrow> decimal L c"
    using n dec by (auto simp: list_all_iff)
  have d40: "\<not> decimal L 40" and d32: "\<not> decimal L 32"
    using dec by (auto simp: ascii_digit_def)
  obtain a m where nm: "n = a # m" using ne by (cases n) auto
  have d: "dropWhile (\<lambda>c. \<not> decimal L c) (pre @ 40 # n @ 32 # rest) = n @ 32 # rest"
    using p d40 nd by (subst dropWhile_append2) (auto simp: nm)
  have t: "takeWhile (decimal L) (n @ 32 # rest) = n"
    using nd d32 by (subst takeWhile_append2) auto
  show ?thesis by (simp add: search_decimal_def Let_def d t ne)
qed

lemma no_count_ibd:
  assumes "\<not> list_ex (\<lambda>c. c = 40 \<or> ascii_digit c) val"
    and "list_all (\<lambda>c. decimal L c = ascii_digit c) val"
  shows "search_decimal L val = None"
proof -
  have "\<And>c. c \<in> set val \<Longrightarrow> \<not> decimal L c"
    using assms by (auto simp: list_ex_iff list_all_iff)
  then have "dropWhile (\<lambda>c. \<not> decimal L c) val = []" by simp
  then show ?thesis by (simp add: search_decimal_def)
qed

text \<open>
  Claim C4, as amended.  On a product page served with a success status whose attributes
  table has rows of a label and a value (or that has no such table), let \<open>val\<close> be the
  stripped value of the last row labelled \<open>Availability\<close>.  In all_books_data.py and
  in images_book_data.py the availability field is the integer embedded in the
  parenthesized count of \<open>val\<close>, as its decimal string, when \<open>val\<close> has one (a left
  parenthesis, the digits and a space, no parenthesis and no digit before them), and the
  string \<open>0\<close> when \<open>val\<close> has no parenthesis and no digit; when no row is labelled
  \<open>Availability\<close> the field is the empty string, also in books_data_images.py.  The
  digits are those of ASCII, and \<open>val\<close> holds no other decimal digit of Unicode.
\<close>

theorem availability_field:
  assumes tbl: "spec_table page = Some (two_cell_rows kvs) \<or> spec_table page = None \<and> kvs = []"
    and srv: "w (sent \<sigma>) (url, None) = Response r \<and> status_code r < 400 \<and> parsed r = page"
  shows "(last_value (str ''Availability'') kvs = Some (pre @ 40 # n @ 32 # rest) \<and>
          n \<noteq> [] \<and> list_all ascii_digit n \<and> \<not> list_ex (\<lambda>c. c = 40 \<or> ascii_digit c) pre \<and>
          list_all (\<lambda>c. decimal L c = ascii_digit c) (pre @ 40 # n @ 32 # rest) \<longrightarrow>
            key_of (book_of_soup_abd url page) ''availability'' = Some n \<and>
            field (scrape_book_ibd L w url \<sigma>) ''availability'' = Some n) \<and>
         (last_value (str ''Availability'') kvs = Some val \<and>
          \<not> list_ex (\<lambda>c. c = 40 \<or> ascii_digit c) val \<and>
          list_all (\<lambda>c. decimal L c = ascii_digit c) val \<longrightarrow>
            key_of (book_of_soup_abd url page) ''availability'' = Some (str ''0'') \<and>
            field (scrape_book_ibd L w url \<sigma>) ''availability'' = Some (str ''0'')) \<and>
         (last_value (str ''Availability'') kvs = None \<longrightarrow>
            key_of (book_of_soup_abd url page) ''availability'' = Some [] \<and>
            field (scrape_book_ibd L w url \<sigma>) ''availability'' = Some [] \<and>
            (h1 page \<noteq> None \<longrightarrow>
               key_of (book_of_soup_bdi L url page) ''availability'' = Some []))"
proof -
  note g = availability_of_rows[OF tbl, where url = url and w = w and \<sigma> = \<sigma> and r = r and L = L]
  note a = g[THEN conjunct1]
  note i = g[THEN conjunct2, THEN conjunct1, rule_format, OF srv]
  note b = g[THEN conjunct2, THEN conjunct2, rule_format]
  show ?thesis
  proof (intro conjI impI)
    assume h: "last_value (str ''Availability'') kvs = Some (pre @ 40 # n @ 32 # rest) \<and>
          n \<noteq> [] \<and> list_all ascii_digit n \<and> \<not> list_ex (\<lambda>c. c = 40 \<or> ascii_digit c) pre \<and>
          list_all (\<lambda>c. decimal L c = ascii_digit c) (pre @ 40 # n @ 32 # rest)"
    then have pa: "40 \<in> set (pre @ 40 # n @ 32 # rest) \<and>
         takeWhile (\<lambda>c. c \<noteq> 32)
           (takeWhile (\<lambda>c. c \<noteq> 40) (tl (dropWhile (\<lambda>c. c \<noteq> 40) (pre @ 40 # n @ 32 # rest)))) = n"
      using paren_count_abd[of n pre rest] by blast
    from h have pi: "search_decimal L (pre @ 40 # n @ 32 # rest) = Some n"
      using paren_count_ibd[of n pre L rest] by blast
    from h have lv: "last_value (str ''Availability'') kvs = Some (pre @ 40 # n @ 32 # rest)" by blast
    show "key_of (book_of_soup_abd url page) ''availability'' = Some n"
      unfolding a lv option.case using pa by (simp only: if_True)
    show "field (scrape_book_ibd L w url \<sigma>) ''availability'' = Some n"
      unfolding i lv option.case pi ..
  next
    assume h: "last_value (str ''Availability'') kvs = Some val \<and>
          \<not> list_ex (\<lambda>c. c = 40 \<or> ascii_digit c) val \<and>
          list_all (\<lambda>c. decimal L c = ascii_digit c) val"
    then have n40: "40 \<notin> set val" by (auto simp: list_ex_iff)
    from h have pi: "search_decimal L val = None" using no_count_ibd[of val L] by blast
    from h have lv: "last_value (str ''Availability'') kvs = Some val" by blast
    show "key_of (book_of_soup_abd url page) ''availability'' = Some (str ''0'')"
      unfolding a lv option.case using n40 by (simp only: if_False)
    show "field (scrape_book_ibd L w url \<sigma>) ''availability'' = Some (str ''0'')"
      unfolding i lv option.case pi ..
  next
    assume lv: "last_value (str ''Availability'') kvs = None"
    show "key_of (book_of_soup_abd url page) ''availability'' = Some []"
      unfolding a lv option.case ..
    show "field (scrape_book_ibd L w url \<sigma>) ''availability'' = Some []"
      unfolding i lv option.case ..
    show "key_of (book_of_soup_bdi L url page) ''availability'' = Some []" if "h1 page \<noteq> None"
      using b[OF that] unfolding lv option.case .
  qed
qed

theorem availability_field_witness:
  "key_of (book_of_soup_abd (str ''u'') (stock_page (str ''In stock (19 available)''))) ''availability''
     = Some (str ''19'') \<and>
   field (scrape_book_ibd ascii_lib (\<lambda>_ _. served 200 (stock_page (str ''In stock (19 available)'')))
            (str ''u'') fresh) ''availability''
     = Some (str ''19'') \<and>
   key_of (book_of_soup_abd (str ''u'') (stock_page (str ''In stock''))) ''availability''
     = Some (str ''0'') \<and>
   field (scrape_book_ibd ascii_lib (\<lambda>_ _. served 200 (stock_page (str ''In stock''))) (str ''u'') fresh)
     ''availability''
     = Some (str ''0'') \<and>
   key_of (book_of_soup_abd (str ''u'') price_page) ''availability'' = Some [] \<and>
   field (scrape_book_ibd ascii_lib (\<lambda>_ _. served 200 price_page) (str ''u'') fresh) ''availability''
     = Some [] \<and>
   key_of (book_of_soup_bdi ascii_lib (str ''u'') price_page) ''availability'' = Some []"
proof -
  note t = availability_field
  show ?thesis
    using t[OF disjI1, OF stock_page_table(1)[of "str ''In stock (19 available)''"],
            where url = "str ''u''" and L = ascii_lib and \<sigma> = fresh
              and w = "\<lambda>_ _. served 200 (stock_page (str ''In stock (19 available)''))"
              and r = "\<lparr>status_code = 200, content_type = None,
                         parsed = stock_page (str ''In stock (19 available)''), chunks = [],
                         stream_breaks = False\<rparr>"
              and pre = "str ''In stock ''" and n = "str ''19''" and rest = "str ''available)''"
              and val = "str ''In stock''"]
          t[OF disjI1, OF stock_page_table(1)[of "str ''In stock''"],
            where url = "str ''u''" and L = ascii_lib and \<sigma> = fresh
              and w = "\<lambda>_ _. served 200 (stock_page (str ''In stock''))"
              and r = "\<lparr>status_code = 200, content_type = None,
                         parsed = stock_page (str ''In stock''), chunks = [],
                         stream_breaks = False\<rparr>"
              and pre = "str ''In stock ''" and n = "str ''19''" and rest = "str ''available)''"
              and val = "str ''In stock''"]
          t[OF disjI1, OF price_page_table(1),
            where url = "str ''u''" and L = ascii_lib and \<sigma> = fresh
              and w = "\<lambda>_ _. served 200 price_page"
              and r = "\<lparr>status_code = 200, content_type = None,
                         parsed = price_page, chunks = [], stream_breaks = False\<rparr>"
              and pre = "str ''In stock ''" and n = "str ''19''" and rest = "str ''available)''"
              and val = "str ''In stock''"]
    by (simp add: str_defs ascii_lib_def ascii_digit_def served_def
        stock_page_table(2) price_page_table(2))
qed

text \<open>
  On a page whose table has no \<open>Availability\<close> row the availability field is the empty
  string, not \<open>0\<close>.  Outside the two shapes of the value, a parenthesis without count
  leaves all_books_data.py with the text after it, and a digit without parenthesis is a
  count for images_book_data.py.
\<close>

theorem availability_counterexample:
  "field (scrape_book_abd (\<lambda>_ _. served 200 price_page) (str ''u'') fresh) ''availability'' = Some [] \<and>
   field (scrape_book_abd (\<lambda>_ _. served 200 price_page) (str ''u'') fresh) ''availability''
     \<noteq> Some (str ''0'') \<and>
   field (scrape_book_ibd ascii_lib (\<lambda>_ _. served 200 price_page) (str ''u'') fresh) ''availability''
     = Some [] \<and>
   field (extract_book_data ascii_lib (\<lambda>_ _. served 200 price_page) (str ''u'') fresh) ''availability''
     = Some [] \<and>
   field (scrape_book_abd (\<lambda>_ _. served 200 (stock_page (str ''In stock (limited)''))) (str ''u'') fresh)
     ''availability''
     = Some (str ''limited)'') \<and>
   field (scrape_book_ibd ascii_lib (\<lambda>_ _. served 200 (stock_page (str ''Only 3 left''))) (str ''u'')
            fresh) ''availability''
     = Some (str ''3'')"
  by (simp add: scrape_book_abd_def book_of_soup_abd_def scrape_book_ibd_def extract_book_data_def
      book_of_soup_bdi_def http_defs page_defs price_page_def stock_page_def two_cell_rows_def
      str_defs table_row_abd_def table_row_ibd_def specs_row_def book_dict_def empty_fields_def
      Let_def category_of_links_def dict_get_def ascii_lib_def search_decimal_def
      count_in_parens_def item_def)

text \<open>
  \<open>extract_book_data\<close> of books_data_images.py stores the value of the row as it is,
  where the two other scripts extract the count.
\<close>

lemma extract_book_data_availability_unparsed:
  "field (extract_book_data ascii_lib (\<lambda>_ _. served 200 (stock_page (str ''In stock (19 available)'')))
            (str ''u'') fresh) ''availability''
     = Some (str ''In stock (19 available)'')"
  by (simp add: extract_book_data_def book_of_soup_bdi_def http_defs page_defs stock_page_def
      two_cell_rows_def str_defs specs_row_def Let_def dict_get_def ascii_lib_def)

section \<open>The Asset Fetcher of test2_image.py\<close>

text \<open>
  \<open>save_image\<close> of test2_image.py, with no image on disk: a request without response,
  a failure status or a content type that is not an image gives the empty path and
  leaves every file as it was.
\<close>

lemma fetch_image_t2i_failure:
  assumes "w (sent \<sigma>) (image_url, if referer_url \<noteq> [] then Some referer_url else None) = NoResponse \<or>
           (\<exists>r. w (sent \<sigma>) (image_url, if referer_url \<noteq> [] then Some referer_url else None) = Response r \<and>
                (400 \<le> status_code r \<and> status_code r < 600 \<or>
                 take 6 (lower L (case content_type r of None \<Rightarrow> [] | Some c \<Rightarrow> c)) \<noteq> str ''image/''))"
    and "lg_image_path entry = []"
  shows "lg_image_path (fst (fetch_image_t2i L w image_url referer_url folder base_name ext dest_path entry \<sigma>)) = [] \<and>
         files (snd (fetch_image_t2i L w image_url referer_url folder base_name ext dest_path entry \<sigma>)) = files \<sigma>"
  using assms
  by (auto simp: fetch_image_t2i_def http_get_def raise_for_status_def Let_def)

lemma save_image_t2i_failure:
  assumes "w (sent \<sigma>) (image_url, if referer_url \<noteq> [] then Some referer_url else None) = NoResponse \<or>
           (\<exists>r. w (sent \<sigma>) (image_url, if referer_url \<noteq> [] then Some referer_url else None) = Response r \<and>
                (400 \<le> status_code r \<and> status_code r < 600 \<or>
                 take 6 (lower L (case content_type r of None \<Rightarrow> [] | Some c \<Rightarrow> c)) \<noteq> str ''image/''))"
    and "\<forall>p b. files \<sigma> p = Some b \<longrightarrow> b = []"
  shows "fst (save_image_t2i L w image_url category upc title referer_url (images_log, \<sigma>)) = [] \<and>
         files (snd (snd (save_image_t2i L w image_url category upc title referer_url (images_log, \<sigma>)))) = files \<sigma>"
proof (cases "image_url = []")
  case True
  then show ?thesis by (simp add: save_image_t2i_def)
next
  case False
  have c: "(case files \<sigma> p of None \<Rightarrow> [] | Some b \<Rightarrow> b) = []" for p
    using assms(2) by (auto split: option.splits)
  show ?thesis
    using fetch_image_t2i_failure[where w = w and image_url = image_url
            and referer_url = referer_url and L = L, OF assms(1), where entry = "\<lparr>lg_product_page_url = referer_url, lg_title = title, lg_upc = upc,
                   lg_category = category, lg_image_url = image_url, lg_image_path = [],
                   lg_downloaded = False, lg_http_status = NoStatus, lg_bytes = 0,
                   lg_error = None\<rparr>"]
    by (simp add: save_image_t2i_def Let_def c False case_prod_beta)
qed

lemma save_image_t2i_rejects_non_image:
  "save_image_t2i ascii_lib html_web cover_jpg (str ''Poetry'') (str ''a897'') (str ''T'') (str ''ref'')
     ([], fresh) =
     ([],
      [\<lparr>lg_product_page_url = str ''ref'', lg_title = str ''T'', lg_upc = str ''a897'',
        lg_category = str ''Poetry'', lg_image_url = cover_jpg, lg_image_path = [],
        lg_downloaded = False, lg_http_status = Status 200, lg_bytes = 0,
        lg_error = Some ValueError\<rparr>],
      \<lparr>sent = [(cover_jpg, Some (str ''ref''))], files = Map.empty\<rparr>)"
  by (simp add: save_image_t2i_def fetch_image_t2i_def Let_def path_defs str_def ascii_lib_def
      cover_jpg_def fresh_def html_web_def image_reply_def http_get_def raise_for_status_def)

section \<open>The page budget in books_data_images.py\<close>

text \<open>
  \<open>scrape_all\<close> of books_data_images.py stops in the same way: with a budget of 1, when
  the listing is read and every product of it is extracted, the crawl returns after the
  last product of the first page.
\<close>

lemma scrape_all_page_budget_one:
  assumes "start_url \<noteq> []"
    and "parse_listing_product_links L w start_url \<sigma> = (Inr links, \<sigma>1)"
    and "visit_links_bdi L w links [] \<sigma>1 = (Inr g, \<sigma>2)"
  shows "scrape_all L w start_url (Some 1) \<sigma> = Some (Inr g, \<sigma>2)"
  unfolding scrape_all_def
  by (subst scrape_all_loop.simps) (simp add: assms)

end
